theory Spec2Isabelle
  imports Main "HOL-Library.AList"
begin

section \<open>JavaScript values\<close>

text \<open>What a method throws: a TypeError, or \<open>new Error(message)\<close>.\<close>

datatype js_error = TypeError | Error string

datatype jsval =
  JUndefined | JNull | JBool bool | JNum int | JNaN | JStr string | JFun string
  | JObj "(string \<times> jsval) list"

fun truthy :: "jsval \<Rightarrow> bool" where
  "truthy JUndefined = False"
| "truthy JNull = False"
| "truthy (JBool b) = b"
| "truthy (JNum n) = (n \<noteq> 0)"
| "truthy JNaN = False"
| "truthy (JStr s) = (s \<noteq> [])"
| "truthy (JFun f) = True"
| "truthy (JObj m) = True"

fun typeof :: "jsval \<Rightarrow> string" where
  "typeof JUndefined = ''undefined''"
| "typeof JNull = ''object''"
| "typeof (JBool b) = ''boolean''"
| "typeof (JNum n) = ''number''"
| "typeof JNaN = ''number''"
| "typeof (JStr s) = ''string''"
| "typeof (JFun f) = ''function''"
| "typeof (JObj m) = ''object''"

text \<open>\<open>a || b\<close>.\<close>

definition js_or :: "jsval \<Rightarrow> jsval \<Rightarrow> jsval" where
  "js_or a b = (if truthy a then a else b)"

text \<open>
  Reading the property \<open>k\<close> of an object made by an object literal: its own property,
  or what it inherits from \<open>Object.prototype\<close> (the functions of that prototype, and the
  prototype itself under \<open>__proto__\<close>), or \<open>undefined\<close>.
\<close>

definition object_prototype_functions :: "string list" where
  "object_prototype_functions =
     [''constructor'', ''hasOwnProperty'', ''isPrototypeOf'', ''propertyIsEnumerable'',
      ''toLocaleString'', ''toString'', ''valueOf'', ''__defineGetter__'',
      ''__defineSetter__'', ''__lookupGetter__'', ''__lookupSetter__'']"

definition object_prototype :: jsval where
  "object_prototype = JObj (map (\<lambda>f. (f, JFun f)) object_prototype_functions)"

definition obj_get :: "(string \<times> jsval) list \<Rightarrow> string \<Rightarrow> jsval" where
  "obj_get m k =
     (case map_of m k of
        Some v \<Rightarrow> v
      | None \<Rightarrow>
          if k = ''__proto__'' then object_prototype
          else if k \<in> set object_prototype_functions then JFun k
          else JUndefined)"

text \<open>
  \<open>v.k\<close> for the names read here: a TypeError on \<open>undefined\<close> and \<open>null\<close>, \<open>undefined\<close> on
  the other values that are no objects.
\<close>

fun get_prop :: "jsval \<Rightarrow> string \<Rightarrow> js_error + jsval" where
  "get_prop JUndefined k = Inl TypeError"
| "get_prop JNull k = Inl TypeError"
| "get_prop (JObj m) k = Inr (obj_get m k)"
| "get_prop v k = Inr JUndefined"

text \<open>\<open>v.k = x\<close>, giving the object afterwards; on a value that is no object nothing is kept.\<close>

fun set_prop :: "jsval \<Rightarrow> string \<Rightarrow> jsval \<Rightarrow> js_error + jsval" where
  "set_prop JUndefined k x = Inl TypeError"
| "set_prop JNull k x = Inl TypeError"
| "set_prop (JObj m) k x = Inr (JObj (AList.update k x m))"
| "set_prop v k x = Inr v"

definition then_do :: "js_error + 'a \<Rightarrow> ('a \<Rightarrow> js_error + 'b) \<Rightarrow> js_error + 'b" where
  "then_do r f = (case r of Inl e \<Rightarrow> Inl e | Inr v \<Rightarrow> f v)"

section \<open>SkylinkSocket (source/socket-channel.js)\<close>

subsection \<open>Data\<close>

text \<open>
  The keys of \<open>SkylinkSocket.prototype.ports\<close> (\<open>'http:'\<close> and \<open>'https:'\<close>) and of
  \<open>_transports\<close> (\<open>'WebSocket'\<close> and \<open>'Polling'\<close>).
\<close>

datatype protocol = Http | Https

datatype transport = WebSocket | Polling

record ports =
  https_ports :: "nat list"
  http_ports :: "nat list"

definition ports_of :: "ports \<Rightarrow> protocol \<Rightarrow> nat list" where
  "ports_of ps pr = (case pr of Https \<Rightarrow> https_ports ps | Http \<Rightarrow> http_ports ps)"

text \<open>\<open>defaults.ports\<close>.\<close>

definition default_ports :: ports where
  "default_ports = \<lparr>https_ports = [443, 3443], http_ports = [6001, 80, 3000]\<rparr>"

text \<open>A signaling message: its \<open>type\<close>, \<open>mid\<close>, \<open>rid\<close> (absent: \<open>None\<close>) and the rest.\<close>

record message =
  mtype :: string
  mid :: "string option"
  rid :: "string option"
  body :: string

text \<open>
  What is handed to the send callback: a message as submitted, or the object
  \<open>{type: 'group', lists: ..., mid: ..., rid: ...}\<close> built by the drain.
\<close>

datatype wire = Plain message | Group "message list" "string option" "string option"

datatype fallback_type =
  nonfallback | fallbackPortNonSSL | fallbackLongPollingNonSSL
  | fallbackPortSSL | fallbackLongPollingSSL

text \<open>The events raised through \<open>_trigger\<close>, with the arguments the claims read.\<close>

datatype event =
  ConnectError int transport
  | ConnectRetry fallback_type nat
  | EvConnect
  | EvDisconnect
  | EvError
  | EvMessage jsval

datatype drop_reason = NotInitialized | NotConnected

text \<open>
  Everything the object does to its environment, in the order it does it:
  \<open>io.connect\<close> (with the port and transport of the call), \<open>_socket.disconnect()\<close> and
  \<open>_socket.send\<close> on a socket, the two \<open>log.warn('Dropping message ...')\<close> of the send
  callback, and \<open>_trigger\<close>.
\<close>

datatype effect =
  IoConnect protocol "nat option" transport
  | SocketDisconnect nat
  | SocketSend nat wire
  | LogDrop drop_reason wire
  | Trigger event

text \<open>
  \<open>_messaging.timestamp\<close> is \<open>null\<close>, a number, or (when \<open>Date.now()\<close> is \<open>0\<close>) the
  function of \<open>Date.now() || function() {...}\<close>.
\<close>

datatype tstamp = TNull | TNum int | TFun

text \<open>
  The object. \<open>port = None\<close> is \<open>undefined\<close> (the first element of an empty list).
  Sockets made by \<open>io.connect\<close> are numbered; \<open>listeners\<close> are the sockets that still
  carry the handlers of \<open>_listenToEvents\<close> which \<open>_reconnect\<close> removes.
  \<open>timer\<close> is \<open>_messaging.timer\<close> (a timeout handle, positive in every browser, or
  \<open>null\<close>); \<open>timeouts\<close> are the timeouts of the environment that are still pending,
  with the time they are due.
\<close>

record sstate =
  ports :: ports
  protocol :: protocol
  connected :: bool
  dead :: bool
  retries_current :: nat
  port :: "nat option"
  transport :: transport
  transportFallback :: bool
  path :: "(protocol \<times> nat option) option"
  socket :: "nat option"
  next_socket :: nat
  listeners :: "nat set"
  queue :: "message list"
  timestamp :: tstamp
  timer :: "nat option"
  next_timer :: nat
  timeouts :: "nat \<rightharpoonup> int"
  trace :: "effect list"

definition emit :: "effect \<Rightarrow> sstate \<Rightarrow> sstate" where
  "emit e s = s\<lparr>trace := trace s @ [e]\<rparr>"

subsection \<open>connect, disconnect, reset\<close>

fun nth_opt :: "'a list \<Rightarrow> nat \<Rightarrow> 'a option" where
  "nth_opt [] n = None"
| "nth_opt (x # xs) 0 = Some x"
| "nth_opt (x # xs) (Suc n) = nth_opt xs n"

text \<open>\<open>Array.prototype.indexOf\<close>: the first index, \<open>None\<close> for \<open>-1\<close>.\<close>

fun indexOf :: "'a list \<Rightarrow> 'a \<Rightarrow> nat option" where
  "indexOf [] x = None"
| "indexOf (y # ys) x = (if y = x then Some 0 else map_option Suc (indexOf ys x))"

definition listenToEvents :: "sstate \<Rightarrow> sstate" where
  "listenToEvents s =
     (case socket s of
        None \<Rightarrow> s
      | Some i \<Rightarrow> s\<lparr>listeners := insert i (listeners s)\<rparr>)"

definition connect :: "sstate \<Rightarrow> sstate" where
  "connect s0 =
     (let s1 = (if port s0 = Some 0
                then s0\<lparr>port := nth_opt (ports_of (ports s0) (protocol s0)) 0\<rparr>
                else s0);
          s2 = s1\<lparr>path := Some (protocol s1, port s1), connected := False, dead := False\<rparr>;
          i = next_socket s2;
          s3 = emit (IoConnect (protocol s2) (port s2) (transport s2))
                 (s2\<lparr>socket := Some i, next_socket := Suc i\<rparr>)
      in listenToEvents s3)"

definition disconnect :: "sstate \<Rightarrow> sstate" where
  "disconnect s = (case socket s of None \<Rightarrow> s | Some i \<Rightarrow> emit (SocketDisconnect i) s)"

text \<open>\<open>reset\<close>; the argument is the truth of \<open>window.WebSocket\<close>.\<close>

definition reset :: "bool \<Rightarrow> sstate \<Rightarrow> sstate" where
  "reset has_websocket s =
     (let s1 = s\<lparr>transport := WebSocket, transportFallback := False, port := Some 0,
                 retries_current := 0\<rparr>
      in if \<not> has_websocket then s1\<lparr>transport := Polling\<rparr> else s1)"

subsection \<open>send and the message queue\<close>

definition typesToQueue :: "string list" where
  "typesToQueue =
     [''stream'', ''updateUserEvent'', ''roomLockEvent'', ''muteAudioEvent'',
      ''muteVideoEvent'', ''public'']"

definition interval :: int where
  "interval = 1000"

definition throughput :: nat where
  "throughput = 16"

text \<open>\<open>Date.now() || function() {...}\<close> at the time \<open>now\<close>.\<close>

definition date_now :: "int \<Rightarrow> tstamp" where
  "date_now now = (if now = 0 then TFun else TNum now)"

text \<open>
  \<open>(Date.now() || ...) - timestamp\<close>: \<open>null\<close> counts as \<open>0\<close>, a function gives \<open>NaN\<close>
  (\<open>None\<close>), and every comparison with \<open>NaN\<close> is false.
\<close>

definition elapsed :: "int \<Rightarrow> tstamp \<Rightarrow> int option" where
  "elapsed now ts =
     (case date_now now of
        TNum n \<Rightarrow> (case ts of TNull \<Rightarrow> Some n | TNum t \<Rightarrow> Some (n - t) | TFun \<Rightarrow> None)
      | _ \<Rightarrow> None)"

text \<open>The callback that \<open>send\<close> passes to \<open>_limitMessageInterval\<close>.\<close>

definition deliver :: "wire \<Rightarrow> sstate \<Rightarrow> sstate" where
  "deliver w s =
     (case socket s of
        None \<Rightarrow> emit (LogDrop NotInitialized w) s
      | Some i \<Rightarrow>
          if \<not> connected s then emit (LogDrop NotConnected w) s
          else emit (SocketSend i w) s)"

text \<open>\<open>setTimeout(delayFn, d)\<close> at the time \<open>now\<close>, stored in \<open>_messaging.timer\<close>.\<close>

definition setTimeout :: "int \<Rightarrow> int \<Rightarrow> sstate \<Rightarrow> sstate" where
  "setTimeout now d s =
     (let i = next_timer s
      in s\<lparr>timer := Some i, next_timer := Suc i,
            timeouts := (timeouts s)(i \<mapsto> now + max 0 d)\<rparr>)"

definition clearTimeout :: "nat option \<Rightarrow> sstate \<Rightarrow> sstate" where
  "clearTimeout h s =
     (case h of None \<Rightarrow> s | Some i \<Rightarrow> s\<lparr>timeouts := (timeouts s)(i := None)\<rparr>)"

text \<open>The closure \<open>delayFn\<close> of \<open>_limitMessageInterval\<close>, run at the time \<open>now\<close>.\<close>

definition delayFn :: "int \<Rightarrow> sstate \<Rightarrow> sstate" where
  "delayFn now s =
     (case queue s of
        [] \<Rightarrow> s
      | data # _ \<Rightarrow>
          let s4 =
            (if length (queue s) < throughput then
               let s1 = deliver (Group (queue s) (mid data) (rid data)) (s\<lparr>queue := []\<rparr>);
                   s2 = clearTimeout (timer s1) s1
               in s2\<lparr>timer := None\<rparr>
             else
               let s1 = deliver (Group (take throughput (queue s)) (mid data) (rid data))
                          (s\<lparr>queue := drop throughput (queue s)\<rparr>);
                   s2 = clearTimeout (timer s1) s1;
                   s3 = s2\<lparr>timer := None\<rparr>
               in setTimeout now interval s3)
          in s4\<lparr>timestamp := date_now now\<rparr>)"

definition limitMessageInterval :: "int \<Rightarrow> message \<Rightarrow> sstate \<Rightarrow> sstate" where
  "limitMessageInterval now m s =
     (let immediately = (deliver (Plain m) s)\<lparr>timestamp := date_now now\<rparr>
      in case elapsed now (timestamp s) of
           None \<Rightarrow> immediately
         | Some d \<Rightarrow>
             if d < interval \<and> mtype m \<in> set typesToQueue then
               let s1 = s\<lparr>queue := queue s @ [m]\<rparr>
               in if timer s1 = None then setTimeout now (interval - d) s1 else s1
             else immediately)"

definition send :: "int \<Rightarrow> message \<Rightarrow> sstate \<Rightarrow> sstate" where
  "send now m s = limitMessageInterval now m s"

text \<open>Messages submitted one after the other, each at its own time.\<close>

fun send_all :: "(int \<times> message) list \<Rightarrow> sstate \<Rightarrow> sstate" where
  "send_all [] s = s"
| "send_all ((now, m) # rest) s = send_all rest (send now m s)"

text \<open>
  The environment runs the timeout \<open>i\<close> at the time \<open>now\<close>: only a pending timeout runs,
  not before it is due, and once.
\<close>

definition fire :: "nat \<Rightarrow> int \<Rightarrow> sstate \<Rightarrow> sstate" where
  "fire i now s =
     (case timeouts s i of
        None \<Rightarrow> s
      | Some due \<Rightarrow>
          if now < due then s
          else delayFn now (s\<lparr>timeouts := (timeouts s)(i := None)\<rparr>))"

subsection \<open>_reconnect and the socket.io events\<close>

definition fallbackType_of :: "nat \<Rightarrow> sstate \<Rightarrow> fallback_type" where
  "fallbackType_of index s =
     (if index > 0 \<or> transportFallback s then
        (if protocol s = Http then
           (if transport s = WebSocket then fallbackPortNonSSL else fallbackLongPollingNonSSL)
         else
           (if transport s = WebSocket then fallbackPortSSL else fallbackLongPollingSSL))
      else nonfallback)"

text \<open>The end of \<open>_reconnect\<close>, from "Restart socket connection" on.\<close>

definition restart :: "nat \<Rightarrow> sstate \<Rightarrow> sstate" where
  "restart index s =
     connect (emit (Trigger (ConnectRetry (fallbackType_of index s) (retries_current s))) s)"

text \<open>The start of \<open>_reconnect\<close>: the handlers are taken off the socket, then \<open>disconnect()\<close>.\<close>

definition teardown :: "sstate \<Rightarrow> sstate" where
  "teardown s =
     (case socket s of
        None \<Rightarrow> s
      | Some i \<Rightarrow> disconnect (s\<lparr>listeners := listeners s - {i}\<rparr>))"

definition reconnect :: "sstate \<Rightarrow> sstate" where
  "reconnect s0 =
     (let s = teardown s0;
          plist = ports_of (ports s) (protocol s)
      in case (case port s of None \<Rightarrow> None | Some p \<Rightarrow> indexOf plist p) of
           None \<Rightarrow>
             let s1 = (if https_ports (ports s) = []
                       then s\<lparr>ports := (ports s)\<lparr>https_ports := https_ports default_ports\<rparr>\<rparr>
                       else s);
                 s2 = (if http_ports (ports s1) = []
                       then s1\<lparr>ports := (ports s1)\<lparr>http_ports := http_ports default_ports\<rparr>\<rparr>
                       else s1)
             in restart 0 s2
         | Some index \<Rightarrow>
             if int index < int (length plist) - 1 then
               restart index (s\<lparr>port := nth_opt plist (index + 1)\<rparr>)
             else if transport s = WebSocket then
               restart index
                 (s\<lparr>transport := Polling, port := nth_opt plist 0, transportFallback := True\<rparr>)
             else
               emit (Trigger (ConnectError (- 3) (transport s))) (s\<lparr>dead := True\<rparr>))"

text \<open>
  The events of a socket. A \<open>message\<close> event comes with its text and with what
  \<open>JSON.parse\<close> makes of that text (\<open>None\<close> when it throws): the parser is not modelled.
\<close>

datatype io_event =
  connect_error | connect_timeout | reconnect_attempt | reconnect_error | reconnect_failed
  | reconnecting | io_connect | io_reconnect | io_error | io_disconnect
  | io_message string "jsval option"

text \<open>The handlers that \<open>_listenToEvents\<close> installs.\<close>

fun on_event :: "io_event \<Rightarrow> sstate \<Rightarrow> sstate" where
  "on_event connect_error s =
     (if retries_current s = 0 then emit (Trigger (ConnectError 0 (transport s))) s else s)"
| "on_event connect_timeout s = s"
| "on_event reconnect_attempt s =
     (let s1 = s\<lparr>retries_current := retries_current s + 1\<rparr>
      in emit (Trigger (ConnectError (- 4) (transport s1))) s1)"
| "on_event reconnect_error s = emit (Trigger (ConnectError (- 1) (transport s))) s"
| "on_event reconnect_failed s =
     reconnect (emit (Trigger (ConnectError (- 1) (transport s))) s)"
| "on_event reconnecting s = s"
| "on_event io_connect s = emit (Trigger EvConnect) (s\<lparr>connected := True\<rparr>)"
| "on_event io_reconnect s = emit (Trigger EvConnect) (s\<lparr>connected := True\<rparr>)"
| "on_event io_error s = emit (Trigger EvError) s"
| "on_event io_disconnect s = emit (Trigger EvDisconnect) (s\<lparr>connected := False\<rparr>)"
| "on_event (io_message text None) s = s"
| "on_event (io_message text (Some message)) s = emit (Trigger (EvMessage message)) s"

text \<open>The socket numbered \<open>i\<close> raises an event: it is handled when the handlers are on it.\<close>

definition socket_event :: "nat \<Rightarrow> io_event \<Rightarrow> sstate \<Rightarrow> sstate" where
  "socket_event i ev s = (if i \<in> listeners s then on_event ev s else s)"

text \<open>One failed connection: the current socket raises \<open>reconnect_failed\<close>.\<close>

definition fail :: "sstate \<Rightarrow> sstate" where
  "fail s = (case socket s of None \<Rightarrow> s | Some i \<Rightarrow> socket_event i reconnect_failed s)"

text \<open>The \<open>io.connect\<close> calls of a trace, and how often the terminal error was raised.\<close>

fun attempts :: "effect list \<Rightarrow> (nat option \<times> transport) list" where
  "attempts [] = []"
| "attempts (IoConnect pr p t # es) = (p, t) # attempts es"
| "attempts (e # es) = attempts es"

fun terminal_errors :: "effect list \<Rightarrow> nat" where
  "terminal_errors [] = 0"
| "terminal_errors (Trigger (ConnectError c t) # es) =
     (if c = - 3 then Suc (terminal_errors es) else terminal_errors es)"
| "terminal_errors (e # es) = terminal_errors es"

text \<open>
  \<open>new SkylinkSocket()\<close>, and \<open>init()\<close> storing the ports and the protocol (\<open>init\<close> is
  outside these sources: what it stores is a parameter). \<open>_connection\<close> and
  \<open>_messaging\<close> are objects of the prototype, shared by every instance: the constructor
  only runs \<open>reset\<close>, so a new instance finds the path, the queue, the timestamp and the
  timer as the instances before it left them (\<open>shared\<close>); \<open>connected\<close>, \<open>dead\<close> and
  \<open>_socket\<close> are its own and start as the prototype has them.
\<close>

definition construct :: "sstate \<Rightarrow> ports \<Rightarrow> protocol \<Rightarrow> bool \<Rightarrow> sstate" where
  "construct shared ps pr has_websocket =
     reset has_websocket
       (shared\<lparr>ports := ps, protocol := pr, connected := False, dead := False,
               socket := None\<rparr>)"

text \<open>What the prototype holds when the script has been loaded, and the first instance.\<close>

definition pristine :: sstate where
  "pristine =
     \<lparr>ports = \<lparr>https_ports = [], http_ports = []\<rparr>, protocol = Http, connected = False,
      dead = False, retries_current = 0, port = Some 0, transport = WebSocket,
      transportFallback = False, path = None, socket = None, next_socket = 0,
      listeners = {}, queue = [], timestamp = TNull, timer = None, next_timer = 1,
      timeouts = Map.empty, trace = []\<rparr>"

definition new_socket :: "ports \<Rightarrow> protocol \<Rightarrow> bool \<Rightarrow> sstate" where
  "new_socket ps pr has_websocket = construct pristine ps pr has_websocket"

text \<open>Example inputs: a connected socket that has just sent a message, and a burst.\<close>

definition chat :: "nat \<Rightarrow> message" where
  "chat i = \<lparr>mtype = ''public'', mid = Some ''me'', rid = Some ''room'',
             body = replicate i (CHR ''x'')\<rparr>"

definition ready_socket :: sstate where
  "ready_socket =
     send 5000 (chat 0) (socket_event 0 io_connect (connect (new_socket default_ports Http True)))"

definition burst :: "nat \<Rightarrow> (int \<times> message) list" where
  "burst n = map (\<lambda>i. (5000 + int i, chat i)) [1..<Suc n]"

text \<open>
  One step of the object's life: a call of \<open>send\<close>, \<open>connect\<close>, \<open>disconnect\<close> or
  \<open>reset\<close>, a timeout of the environment, or an event of a socket.
\<close>

datatype action =
  Send int message | Fire nat int | Event nat io_event | Connect | Disconnect | Reset bool

fun step :: "action \<Rightarrow> sstate \<Rightarrow> sstate" where
  "step (Send now m) s = send now m s"
| "step (Fire i now) s = fire i now s"
| "step (Event i ev) s = socket_event i ev s"
| "step Connect s = connect s"
| "step Disconnect s = disconnect s"
| "step (Reset w) s = reset w s"

fun run :: "action list \<Rightarrow> sstate \<Rightarrow> sstate" where
  "run [] s = s"
| "run (a # as) s = run as (step a s)"

text \<open>What a trace handed to the send callback, sent or dropped with a warning.\<close>

fun handed :: "effect list \<Rightarrow> wire list" where
  "handed [] = []"
| "handed (SocketSend i w # es) = w # handed es"
| "handed (LogDrop r w # es) = w # handed es"
| "handed (e # es) = handed es"

fun is_group :: "wire \<Rightarrow> bool" where
  "is_group (Group ms m r) = True"
| "is_group (Plain m) = False"

text \<open>
  Example: sixteen queued messages are drained at once, the rescheduled drain finds the
  queue empty, a later message goes out at once and the next one is queued.
\<close>

definition lost_state :: sstate where
  "lost_state =
     send 8100 (chat 18) (send 8000 (chat 17)
       (fire 2 7000 (fire 1 6000 (send_all (burst 16) ready_socket))))"

text \<open>
  The order in which a list of ports is tried: every port under \<open>WebSocket\<close>, then every
  port under \<open>Polling\<close>.
\<close>

definition expected :: "nat list \<Rightarrow> (nat option \<times> transport) list" where
  "expected ps = map (\<lambda>p. (Some p, WebSocket)) ps @ map (\<lambda>p. (Some p, Polling)) ps"

text \<open>
  The same for an object that \<open>reset\<close> has started under the given transport: under
  \<open>Polling\<close> there is nothing to fall back to.
\<close>

definition schedule :: "transport \<Rightarrow> nat list \<Rightarrow> (nat option \<times> transport) list" where
  "schedule t ps =
     (case t of WebSocket \<Rightarrow> expected ps | Polling \<Rightarrow> map (\<lambda>p. (Some p, Polling)) ps)"

text \<open>
  Predicates of the proofs: a queue that no timeout will drain; the reconnection after
  \<open>n\<close> failures, started from \<open>s\<close> on the ports \<open>ps\<close>; and the reconnection given up.
\<close>

definition stuck :: "sstate \<Rightarrow> bool" where
  "stuck s = (timer s \<noteq> None \<and> timeouts s = Map.empty)"

definition running :: "nat list \<Rightarrow> sstate \<Rightarrow> nat \<Rightarrow> nat \<Rightarrow> sstate \<Rightarrow> bool" where
  "running ps s off n c =
     ((\<exists>i. socket c = Some i \<and> i \<in> listeners c)
      \<and> ports_of (ports c) (protocol c) = ps
      \<and> transport c = (if off + n < length ps then WebSocket else Polling)
      \<and> port c = Some (ps ! (if off + n < length ps then off + n else off + n - length ps))
      \<and> \<not> dead c
      \<and> attempts (trace c) = attempts (trace s) @ take (Suc n) (drop off (expected ps))
      \<and> terminal_errors (trace c) = terminal_errors (trace s))"

definition ended :: "nat list \<Rightarrow> sstate \<Rightarrow> nat \<Rightarrow> sstate \<Rightarrow> bool" where
  "ended ps s off c =
     ((\<exists>i. socket c = Some i \<and> i \<notin> listeners c) \<and> dead c
      \<and> attempts (trace c) = attempts (trace s) @ drop off (expected ps)
      \<and> terminal_errors (trace c) = Suc (terminal_errors (trace s)))"

text \<open>Example inputs: a list with one port twice, and the default object given up.\<close>

definition twice_80 :: sstate where
  "twice_80 = new_socket \<lparr>https_ports = [], http_ports = [80, 80]\<rparr> Http True"

definition given_up :: sstate where
  "given_up = (fail ^^ 6) (connect (new_socket default_ports Http True))"

definition polling_only :: sstate where
  "polling_only = connect (new_socket \<lparr>https_ports = [443], http_ports = [80]\<rparr> Http False)"

definition no_websocket :: sstate where
  "no_websocket = connect (new_socket default_ports Http False)"


section \<open>Peer (source/socket-channel.js, second part)\<close>

subsection \<open>Data\<close>

record description =
  dtype :: string
  sdp :: string

text \<open>
  \<open>event.candidate || event\<close>, \<open>event.stream || event\<close>, \<open>event.channel || event\<close>: the
  member when it is there, the event itself otherwise.
\<close>

datatype received = Candidate string | IceEvent

text \<open>
  The object \<open>new Stream(received, null, ...)\<close> that \<open>onAddStream\<close> makes of a stream
  received from the remote side, with \<open>null\<close> for its configuration. The class is not
  in these sources; the model keeps what \<open>setLocalDescription\<close> reads of the object,
  the value of \<open>config.audio.stereo\<close> (\<open>None\<close> when reading it throws).
\<close>

record stream =
  stream_label :: string
  stereo :: "bool option"

text \<open>
  The object \<open>new DataChannel(...)\<close>, made from a received channel (with its label) or
  made by \<open>createDataChannel\<close> (with the \<open>id\<close> of its configuration). Modelled from the
  spec: the class is not in these sources; \<open>channel.label\<close> of a received channel is
  the label the spec classifies by.
\<close>

datatype channel = Inbound string | Outbound "string option"

fun label :: "channel \<Rightarrow> string option" where
  "label (Inbound l) = Some l"
| "label (Outbound i) = None"

text \<open>
  A property of the object \<open>com.datachannels\<close>: \<open>null\<close>, a channel (with the properties
  later stored on that channel object), or the mapping \<open>transfers\<close>.
\<close>

datatype dcval =
  DNull
  | DChan channel "(string \<times> channel) list"
  | DMap "(string \<times> channel) list"

text \<open>
  A peer connection of the browser, with the fields that \<open>bind\<close> adds. \<open>immediate\<close> and
  \<open>applied\<close> belong to the candidate handling, which is not in these sources (see
  \<open>ICE_addCandidate\<close>): whether candidates are applied on arrival, and the candidates
  given to the primitive so far.
\<close>

record pc =
  queueCandidate :: "received list"
  iceConnectionFiredStates :: "string list"
  newSignalingState :: string
  newIceConnectionState :: string
  bound :: bool
  immediate :: bool
  applied :: "received list"

datatype payload = NoPayload | ErrorPayload string | DescPayload description

text \<open>
  What a Peer does to its environment: the calls of \<open>listener\<close>, and the calls on peer
  connections (by address).
\<close>

datatype peffect =
  Listener string payload
  | NewPc nat
  | PcClose nat
  | PcCreateOffer nat
  | PcCreateAnswer nat
  | PcSetLocalDescription nat description
  | PcSetRemoteDescription nat description

text \<open>
  The Peer object \<open>com\<close>. Peer connections are objects shared by reference: \<open>pcs\<close> is
  the store, \<open>RTCPeerConnection\<close> the reference held in \<open>com.RTCPeerConnection\<close>
  (\<open>None\<close> for \<open>null\<close>).
\<close>

record peer =
  peer_id :: "string option"
  userId :: "string option"
  readyState :: string
  constraints :: "string option"
  stream_of :: "stream option"
  datachannels :: "string \<rightharpoonup> dcval"
  RTCPeerConnection :: "nat option"
  pcs :: "nat \<Rightarrow> pc"
  next_pc :: nat
  ptrace :: "peffect list"

definition listener :: "string \<Rightarrow> payload \<Rightarrow> peer \<Rightarrow> peer" where
  "listener name data p = p\<lparr>ptrace := ptrace p @ [Listener name data]\<rparr>"

definition primitive :: "peffect \<Rightarrow> peer \<Rightarrow> peer" where
  "primitive e p = p\<lparr>ptrace := ptrace p @ [e]\<rparr>"

text \<open>
  \<open>function Peer(config, listener)\<close>; the last argument is the truth of
  \<open>window.RTCPeerConnection\<close>, and a fresh store holds unbound connections.
  \<open>config.id || null\<close>: an empty id is \<open>null\<close>.
\<close>

definition unbound_pc :: pc where
  "unbound_pc =
     \<lparr>queueCandidate = [], iceConnectionFiredStates = [], newSignalingState = [],
      newIceConnectionState = [], bound = False, immediate = False, applied = []\<rparr>"

definition Peer :: "string option \<Rightarrow> string option \<Rightarrow> string option \<Rightarrow> bool
    \<Rightarrow> js_error + peer" where
  "Peer config_id config_userId config_constraints has_adapter =
     (if \<not> has_adapter then Inl (Error ''Required dependency adapterjs not found'')
      else Inr \<lparr>peer_id = (if config_id = Some [] then None else config_id), userId = config_userId, readyState = ''new'',
                constraints = config_constraints, stream_of = None,
                datachannels = [''main'' \<mapsto> DNull, ''transfers'' \<mapsto> DMap []],
                RTCPeerConnection = None, pcs = (\<lambda>a. unbound_pc), next_pc = 0,
                ptrace = []\<rparr>)"

subsection \<open>connect, disconnect, bind\<close>

definition bind :: "nat \<Rightarrow> peer \<Rightarrow> peer" where
  "bind a p =
     p\<lparr>pcs := (pcs p)(a := (pcs p a)
           \<lparr>queueCandidate := [], iceConnectionFiredStates := [],
            newSignalingState := ''new'', newIceConnectionState := ''checking'',
            bound := True\<rparr>)\<rparr>"

text \<open>\<open>com.connect\<close>: the new peer connection is bound, and kept nowhere in \<open>com\<close>.\<close>

definition peer_connect :: "string option \<Rightarrow> peer \<Rightarrow> peer" where
  "peer_connect cs p =
     (let a = next_pc p;
          p1 = primitive (NewPc a) (p\<lparr>next_pc := Suc a\<rparr>);
          p2 = p1\<lparr>constraints := cs\<rparr>
      in bind a p2)"

definition peer_disconnect :: "peer \<Rightarrow> js_error + peer" where
  "peer_disconnect p =
     (case RTCPeerConnection p of
        None \<Rightarrow> Inl TypeError
      | Some a \<Rightarrow> Inr (primitive (PcClose a) p))"

subsection \<open>Data channels and streams\<close>

text \<open>
  \<open>com.datachannels.transfers[key] = channel\<close>: into the mapping; onto the channel object
  when \<open>transfers\<close> holds a channel; a TypeError when it is \<open>null\<close> or missing.
\<close>

definition set_transfer :: "string \<Rightarrow> channel \<Rightarrow> peer \<Rightarrow> js_error + peer" where
  "set_transfer key ch p =
     (case datachannels p ''transfers'' of
        Some (DMap m) \<Rightarrow>
          Inr (p\<lparr>datachannels := (datachannels p)(''transfers'' \<mapsto> DMap (AList.update key ch m))\<rparr>)
      | Some (DChan c props) \<Rightarrow>
          Inr (p\<lparr>datachannels :=
                 (datachannels p)(''transfers'' \<mapsto> DChan c (AList.update key ch props))\<rparr>)
      | Some DNull \<Rightarrow> Inl TypeError
      | None \<Rightarrow> Inl TypeError)"

text \<open>\<open>com.onDataChannel\<close> for a received channel with the label \<open>l\<close>.\<close>

definition onDataChannel :: "string \<Rightarrow> peer \<Rightarrow> js_error + peer" where
  "onDataChannel l p =
     (let ch = Inbound l
      in if label ch = Some ''main''
         then Inr (p\<lparr>datachannels := (datachannels p)(''main'' \<mapsto> DChan ch [])\<rparr>)
         else set_transfer l ch p)"

text \<open>
  Modelled from the spec: \<open>fn.isEmpty\<close> is not in these sources; a channel "created with
  no transfer identifier" is one whose identifier is missing or empty.
\<close>

definition fn_isEmpty :: "string option \<Rightarrow> bool" where
  "fn_isEmpty transferId = (transferId = None \<or> transferId = Some [])"

text \<open>
  \<open>com.createDataChannel\<close>. A property name is a string: \<open>undefined\<close> as a name is
  \<open>'undefined'\<close>.
\<close>

definition createDataChannel :: "(string option \<Rightarrow> bool) \<Rightarrow> string option \<Rightarrow> peer \<Rightarrow> peer" where
  "createDataChannel isEmpty transferId p =
     (if isEmpty transferId
      then p\<lparr>datachannels := (datachannels p)(''main'' \<mapsto> DChan (Outbound (peer_id p)) [])\<rparr>
      else p\<lparr>datachannels :=
               (datachannels p)
                 ((case transferId of None \<Rightarrow> ''undefined'' | Some t \<Rightarrow> t)
                    \<mapsto> DChan (Outbound transferId) [])\<rparr>)"


subsection \<open>Session descriptions\<close>

text \<open>\<open>sdp.split('\<bslash>r\<bslash>n')\<close> and \<open>sdpLines.join('\<bslash>r\<bslash>n')\<close>.\<close>

definition CR :: char where
  "CR = CHR 0x0D"

definition LF :: char where
  "LF = CHR 0x0A"

fun split_crlf :: "string \<Rightarrow> string list" where
  "split_crlf [] = [[]]"
| "split_crlf [c] = [[c]]"
| "split_crlf (c # d # cs) =
     (if c = CR \<and> d = LF then [] # split_crlf cs
      else (case split_crlf (d # cs) of
              [] \<Rightarrow> [[c]]
            | l # ls \<Rightarrow> (c # l) # ls))"

fun join_crlf :: "string list \<Rightarrow> string" where
  "join_crlf [] = []"
| "join_crlf [l] = l"
| "join_crlf (l # ls) = l @ [CR, LF] @ join_crlf ls"

text \<open>
  The functions of \<open>SDP\<close> and the value of \<open>globals.bandwidth\<close> are not in these
  sources: they are parameters.
\<close>

record sdp_env =
  removeH264Support :: "string list \<Rightarrow> string list"
  addStereo :: "string list \<Rightarrow> string list"
  setBitrate :: "string list \<Rightarrow> jsval \<Rightarrow> string list"
  bandwidth :: jsval

text \<open>
  Modelled from the spec: \<open>fn.isSafe\<close> is not in these sources; the stereo parameter is
  injected when the media configuration marks audio as stereo, so \<open>fn.isSafe(f)\<close> is
  the value of \<open>f()\<close>, and false when \<open>f()\<close> throws (\<open>None\<close>).
\<close>

definition fn_isSafe :: "bool option \<Rightarrow> bool" where
  "fn_isSafe r = (case r of None \<Rightarrow> False | Some b \<Rightarrow> b)"

text \<open>\<open>com.stream.config.audio.stereo\<close>: it throws when \<open>com.stream\<close> is \<open>null\<close>.\<close>

definition stream_stereo :: "peer \<Rightarrow> bool option" where
  "stream_stereo p = (case stream_of p of None \<Rightarrow> None | Some st \<Rightarrow> stereo st)"

text \<open>
  The lines that \<open>setLocalDescription\<close> computes before it calls the primitive. The
  source closes the function of \<open>fn.isSafe\<close> with a parenthesis instead of a brace; it
  is read as \<open>fn.isSafe(function () { return com.stream.config.audio.stereo; })\<close>.
\<close>

definition local_lines :: "sdp_env \<Rightarrow> peer \<Rightarrow> string \<Rightarrow> string list" where
  "local_lines env p text =
     (let sdpLines = split_crlf text;
          sdpLines = removeH264Support env sdpLines;
          sdpLines = (if fn_isSafe (stream_stereo p) then addStereo env sdpLines else sdpLines);
          sdpLines = (if truthy (bandwidth env) then setBitrate env sdpLines (bandwidth env)
                      else sdpLines)
      in sdpLines)"

text \<open>
  \<open>com.setLocalDescription\<close>; \<open>outcome\<close> is what the primitive answers: \<open>None\<close> calls the
  success callback, \<open>Some error\<close> the failure callback.
\<close>

definition setLocalDescription ::
    "sdp_env \<Rightarrow> string option \<Rightarrow> description \<Rightarrow> peer \<Rightarrow> js_error + peer" where
  "setLocalDescription env outcome localDescription p =
     (let d = localDescription\<lparr>sdp := join_crlf (local_lines env p (sdp localDescription))\<rparr>
      in case RTCPeerConnection p of
           None \<Rightarrow> Inl TypeError
         | Some a \<Rightarrow>
             let p1 = primitive (PcSetLocalDescription a d) p
             in case outcome of
                  None \<Rightarrow>
                    let p2 = listener ''peer:local_description:success'' NoPayload p1
                    in (case RTCPeerConnection p2 of
                          None \<Rightarrow> if dtype d = ''answer'' then Inl TypeError else Inr p2
                        | Some b \<Rightarrow>
                            if dtype d = ''answer''
                            then Inr (p2\<lparr>pcs := (pcs p2)(b := (pcs p2 b)
                                         \<lparr>newSignalingState := ''have-local-answer''\<rparr>)\<rparr>)
                            else Inr p2)
                | Some error \<Rightarrow>
                    Inr (listener ''peer:local_description:error'' (ErrorPayload error) p1))"

text \<open>\<open>com.setRemoteDescription\<close>; \<open>new RTCSessionDescription(remoteSdp)\<close> has the same fields.\<close>

definition setRemoteDescription :: "string option \<Rightarrow> description \<Rightarrow> peer \<Rightarrow> js_error + peer" where
  "setRemoteDescription outcome remoteSdp p =
     (let remoteDescription = remoteSdp
      in case RTCPeerConnection p of
           None \<Rightarrow> Inl TypeError
         | Some a \<Rightarrow>
             let p1 = primitive (PcSetRemoteDescription a remoteDescription) p
             in case outcome of
                  None \<Rightarrow>
                    let p2 = listener ''peer:remote_description:success'' NoPayload p1
                    in (case RTCPeerConnection p2 of
                          None \<Rightarrow>
                            if dtype remoteDescription = ''answer'' then Inl TypeError else Inr p2
                        | Some b \<Rightarrow>
                            if dtype remoteDescription = ''answer''
                            then Inr (p2\<lparr>pcs := (pcs p2)(b := (pcs p2 b)
                                         \<lparr>newSignalingState := ''have-remote-answer''\<rparr>)\<rparr>)
                            else Inr p2)
                | Some error \<Rightarrow>
                    Inr (listener ''peer:remote_description:error'' (ErrorPayload error) p1))"

text \<open>
  \<open>com.createOffer\<close> and \<open>com.createAnswer\<close>; \<open>made\<close> is what the primitive answers (the
  description, or the error), \<open>outcome\<close> what it answers to \<open>setLocalDescription\<close>.
\<close>

definition createOffer ::
    "sdp_env \<Rightarrow> string + description \<Rightarrow> string option \<Rightarrow> peer \<Rightarrow> js_error + peer" where
  "createOffer env made outcome p =
     (case RTCPeerConnection p of
        None \<Rightarrow> Inl TypeError
      | Some a \<Rightarrow>
          let p1 = primitive (PcCreateOffer a) p
          in case made of
               Inr offer \<Rightarrow>
                 setLocalDescription env outcome offer
                   (listener ''peer:local_offer:success'' (DescPayload offer) p1)
             | Inl error \<Rightarrow> Inr (listener ''peer:local_offer:failure'' (ErrorPayload error) p1))"

definition createAnswer ::
    "sdp_env \<Rightarrow> string + description \<Rightarrow> string option \<Rightarrow> peer \<Rightarrow> js_error + peer" where
  "createAnswer env made outcome p =
     (case RTCPeerConnection p of
        None \<Rightarrow> Inl TypeError
      | Some a \<Rightarrow>
          let p1 = primitive (PcCreateAnswer a) p
          in case made of
               Inr offer \<Rightarrow>
                 setLocalDescription env outcome offer
                   (listener ''peer:local_answer:success'' (DescPayload offer) p1)
             | Inl error \<Rightarrow> Inr (listener ''peer:local_answer:failure'' (ErrorPayload error) p1))"






subsection \<open>ICE candidates\<close>

text \<open>
  Modelled from the spec: \<open>ICE.addCandidate\<close> is not in these sources. "An inbound
  candidate always appends to pendingCandidates; a drain step (triggered exactly once,
  immediately after remote description is successfully applied) applies every buffered
  candidate in order, then switches to apply-immediately mode for subsequent candidates".
\<close>

definition ICE_addCandidate :: "nat \<Rightarrow> received \<Rightarrow> peer \<Rightarrow> peer" where
  "ICE_addCandidate a c p =
     (if immediate (pcs p a)
      then p\<lparr>pcs := (pcs p)(a := (pcs p a)\<lparr>applied := applied (pcs p a) @ [c]\<rparr>)\<rparr>
      else p\<lparr>pcs := (pcs p)(a := (pcs p a)
                  \<lparr>queueCandidate := queueCandidate (pcs p a) @ [c]\<rparr>)\<rparr>)"

text \<open>Modelled from the spec: the drain step, not in these sources.\<close>

definition ICE_drain :: "nat \<Rightarrow> peer \<Rightarrow> peer" where
  "ICE_drain a p =
     p\<lparr>pcs := (pcs p)(a := (pcs p a)
           \<lparr>applied := applied (pcs p a) @ queueCandidate (pcs p a),
            queueCandidate := [], immediate := True\<rparr>)\<rparr>"

text \<open>\<open>com.onIceCandidate(event, bindPeer)\<close>; the event has a candidate or \<open>null\<close>.\<close>

definition received_of :: "string option \<Rightarrow> received" where
  "received_of event_candidate =
     (case event_candidate of Some c \<Rightarrow> Candidate c | None \<Rightarrow> IceEvent)"

definition onIceCandidate :: "string option \<Rightarrow> nat \<Rightarrow> peer \<Rightarrow> peer" where
  "onIceCandidate event_candidate bindPeer p =
     (let received = received_of event_candidate
      in ICE_addCandidate bindPeer received p)"

text \<open>The handler \<open>bindPeer.onicecandidate\<close> that \<open>bind\<close> installs: it runs on a bound connection.\<close>

definition pc_icecandidate :: "nat \<Rightarrow> string option \<Rightarrow> peer \<Rightarrow> peer" where
  "pc_icecandidate a event_candidate p =
     (if bound (pcs p a) then onIceCandidate event_candidate a p else p)"

fun candidates_arrive :: "nat \<Rightarrow> string option list \<Rightarrow> peer \<Rightarrow> peer" where
  "candidates_arrive a [] p = p"
| "candidates_arrive a (e # es) p = candidates_arrive a es (pc_icecandidate a e p)"

text \<open>
  Modelled from the spec: the remote description is applied and, when that succeeded,
  the drain step runs at once.
\<close>

definition apply_remote :: "string option \<Rightarrow> description \<Rightarrow> peer \<Rightarrow> js_error + peer" where
  "apply_remote outcome remoteSdp p =
     (case setRemoteDescription outcome remoteSdp p of
        Inl e \<Rightarrow> Inl e
      | Inr p1 \<Rightarrow>
          (case (outcome, RTCPeerConnection p1) of
             (None, Some a) \<Rightarrow> Inr (ICE_drain a p1)
           | _ \<Rightarrow> Inr p1))"

subsection \<open>Example inputs\<close>

text \<open>
  A Peer whose \<open>RTCPeerConnection\<close> has been set to a bound connection, and functions for
  \<open>SDP\<close> that mark what they did.
\<close>

definition example_peer :: peer where
  "example_peer =
     bind 0
       \<lparr>peer_id = Some ''p1'', userId = Some ''u1'', readyState = ''new'',
        constraints = None, stream_of = Some \<lparr>stream_label = ''s'', stereo = Some True\<rparr>,
        datachannels = [''main'' \<mapsto> DNull, ''transfers'' \<mapsto> DMap []],
        RTCPeerConnection = Some 0, pcs = (\<lambda>a. unbound_pc), next_pc = 1, ptrace = []\<rparr>"

definition example_env :: sdp_env where
  "example_env =
     \<lparr>removeH264Support = filter (\<lambda>l. l \<noteq> ''h264''),
      addStereo = (\<lambda>ls. ls @ [''stereo'']),
      setBitrate = (\<lambda>ls b. ls @ [''b=AS'']),
      bandwidth = JNum 256\<rparr>"

definition example_offer :: description where
  "example_offer = \<lparr>dtype = ''offer'', sdp = ''v=0'' @ [CR, LF] @ ''h264''\<rparr>"



section \<open>User data and peer information of Skylink (unnamed/part_000)\<close>

subsection \<open>The object\<close>

record user =
  uid :: string
  sid :: string

text \<open>
  What Skylink does besides changing its fields: \<open>_sendChannelMessage\<close> (not in these
  sources) and \<open>_trigger('peerUpdated', ...)\<close>.
\<close>

datatype seffect =
  SendChannelMessage jsval
  | TriggerPeerUpdated string jsval bool

text \<open>
  The fields that these methods read. \<open>sk_user\<close> is \<open>_user\<close> (\<open>None\<close> for \<open>null\<close>),
  \<open>room_id\<close> is \<open>_room.id\<close> (\<open>None\<close> when \<open>_room\<close> is no object), \<open>UPDATE_USER\<close> is
  \<open>_SIG_MESSAGE_TYPE.UPDATE_USER\<close>, \<open>detectedBrowser\<close> and \<open>detectedVersion\<close> are
  \<open>window.webrtcDetectedBrowser\<close> and \<open>window.webrtcDetectedVersion\<close>.
\<close>

record skylink =
  peerInformations :: "(string \<times> jsval) list"
  sk_user :: "user option"
  sk_userData :: jsval
  inRoom :: bool
  room_id :: "string option"
  UPDATE_USER :: jsval
  mediaStreamsStatus :: jsval
  mediaScreen :: jsval
  screenSharingStreamSettings :: jsval
  streamSettings :: jsval
  selectedRoom :: jsval
  detectedBrowser :: jsval
  detectedVersion :: jsval
  sk_trace :: "seffect list"

subsection \<open>getPeerInfo, getUserData, setUserData\<close>

text \<open>
  The \<open>else\<close> branch of \<open>getPeerInfo\<close>: the information of self. \<open>clone\<close> is not in these
  sources: it is a parameter.
\<close>

definition self_info :: "(jsval \<Rightarrow> jsval) \<Rightarrow> skylink \<Rightarrow> js_error + jsval" where
  "self_info clone s =
     (let mediaStatus = js_or (clone (mediaStreamsStatus s)) (JObj [])
      in then_do
           (if truthy (mediaScreen s) then
              then_do (get_prop (streamSettings s) ''bandwidth'') (\<lambda>bw.
              then_do (set_prop (clone (screenSharingStreamSettings s)) ''bandwidth'' (clone bw))
                (\<lambda>mediaSettings.
              then_do (get_prop mediaSettings ''video'') (\<lambda>video.
                if truthy video
                then set_prop mediaSettings ''video'' (JObj [(''screenshare'', JBool True)])
                else Inr mediaSettings)))
            else Inr (clone (streamSettings s)))
           (\<lambda>mediaSettings.
              then_do (get_prop mediaSettings ''audio'') (\<lambda>audio.
              then_do (if \<not> truthy audio then set_prop mediaStatus ''audioMuted'' (JBool True)
                       else Inr mediaStatus) (\<lambda>mediaStatus.
              then_do (get_prop mediaSettings ''video'') (\<lambda>video.
              then_do (if \<not> truthy video then set_prop mediaStatus ''videoMuted'' (JBool True)
                       else Inr mediaStatus) (\<lambda>mediaStatus.
                Inr (JObj
                  [(''userData'', js_or (clone (sk_userData s)) (JStr [])),
                   (''settings'', js_or mediaSettings (JObj [])),
                   (''mediaStatus'', mediaStatus),
                   (''agent'', JObj [(''name'', detectedBrowser s),
                                     (''version'', detectedVersion s)]),
                   (''room'', clone (selectedRoom s))])))))))"

text \<open>
  \<open>getPeerInfo\<close>. Where the store is read \<open>peerId\<close> is a string, and the name of the
  property is that string.
\<close>

definition getPeerInfo :: "(jsval \<Rightarrow> jsval) \<Rightarrow> jsval \<Rightarrow> skylink \<Rightarrow> js_error + jsval" where
  "getPeerInfo clone peerId s =
     (let isNotSelf =
            (case sk_user s of
               None \<Rightarrow> False
             | Some u \<Rightarrow> if sid u \<noteq> [] then peerId \<noteq> JStr (sid u) else False)
      in if typeof peerId = ''string'' \<and> isNotSelf then
           let peerInfo = obj_get (peerInformations s) (case peerId of JStr k \<Rightarrow> k | _ \<Rightarrow> [])
           in if typeof peerInfo = ''object'' then Inr peerInfo else Inr JNull
         else self_info clone s)"



definition parseUserData :: "jsval \<Rightarrow> skylink \<Rightarrow> skylink" where
  "parseUserData userData s = s\<lparr>sk_userData := js_or userData (JStr [])\<rparr>"

text \<open>
  \<open>setUserData\<close>: the object afterwards, and the error when the method throws (the
  fields keep what was assigned before the throw).
\<close>

definition setUserData :: "(jsval \<Rightarrow> jsval) \<Rightarrow> jsval \<Rightarrow> skylink \<Rightarrow> skylink \<times> js_error option" where
  "setUserData clone userData s0 =
     (let s = parseUserData userData s0
      in if inRoom s then
           (case sk_user s of
              None \<Rightarrow> (s, Some TypeError)
            | Some u \<Rightarrow>
                (case room_id s of
                   None \<Rightarrow> (s, Some TypeError)
                 | Some r \<Rightarrow>
                     let s1 = s\<lparr>sk_trace := sk_trace s @
                                [SendChannelMessage
                                   (JObj [(''type'', UPDATE_USER s), (''mid'', JStr (sid u)),
                                          (''rid'', JStr r), (''userData'', sk_userData s)])]\<rparr>
                     in (case getPeerInfo clone JUndefined s1 of
                           Inl e \<Rightarrow> (s1, Some e)
                         | Inr info \<Rightarrow>
                             (s1\<lparr>sk_trace := sk_trace s1 @
                                   [TriggerPeerUpdated (sid u) info True]\<rparr>, None))))
         else (s, None))"

subsection \<open>Example inputs\<close>

definition example_skylink :: skylink where
  "example_skylink =
     \<lparr>peerInformations =
        [(''peer1'', JObj [(''userData'', JStr ''Alice''), (''settings'', JObj [])])],
      sk_user = Some \<lparr>uid = ''u0'', sid = ''me''\<rparr>,
      sk_userData = JStr ''hello'',
      inRoom = True,
      room_id = Some ''room1'',
      UPDATE_USER = JStr ''updateUserEvent'',
      mediaStreamsStatus = JObj [(''audioMuted'', JBool False), (''videoMuted'', JBool False)],
      mediaScreen = JNull,
      screenSharingStreamSettings = JObj [],
      streamSettings = JObj [(''audio'', JBool True), (''video'', JBool False)],
      selectedRoom = JStr ''room1'',
      detectedBrowser = JStr ''chrome'',
      detectedVersion = JNum 45,
      sk_trace = []\<rparr>"


section \<open>Properties of SkylinkSocket\<close>

subsection \<open>The message queue\<close>

lemma send_queues:
  assumes "timestamp s = TNum t0" "now \<noteq> 0" "now - t0 < interval" "mtype m \<in> set typesToQueue"
  shows "send now m s =
           (if timer s = None
            then setTimeout now (interval - (now - t0)) (s\<lparr>queue := queue s @ [m]\<rparr>)
            else s\<lparr>queue := queue s @ [m]\<rparr>)"
  using assms by (simp add: send_def limitMessageInterval_def elapsed_def date_now_def Let_def)

lemma send_all_pending:
  assumes "timer s \<noteq> None" "timestamp s = TNum t0"
    "\<forall>(t, m) \<in> set tms. t \<noteq> 0 \<and> t - t0 < interval \<and> mtype m \<in> set typesToQueue"
  shows "send_all tms s = s\<lparr>queue := queue s @ map snd tms\<rparr>"
  using assms
proof (induction tms arbitrary: s)
  case Nil
  then show ?case by simp
next
  case (Cons a tms)
  obtain t m where a: "a = (t, m)" by (cases a)
  from Cons.prems a have q: "t \<noteq> 0" "t - t0 < interval" "mtype m \<in> set typesToQueue"
    by auto
  have 1: "send t m s = s\<lparr>queue := queue s @ [m]\<rparr>"
    using send_queues [OF Cons.prems(2) q] Cons.prems(1) by simp
  have "send_all tms (s\<lparr>queue := queue s @ [m]\<rparr>) =
          (s\<lparr>queue := queue s @ [m]\<rparr>)\<lparr>queue := queue (s\<lparr>queue := queue s @ [m]\<rparr>) @ map snd tms\<rparr>"
    by (rule Cons.IH) (use Cons.prems in auto)
  then show ?case by (simp add: a 1)
qed

lemma send_all_first:
  assumes "timer s = None" "timestamp s = TNum t0"
    "\<forall>(t, m) \<in> set tms. t \<noteq> 0 \<and> t - t0 < interval \<and> mtype m \<in> set typesToQueue"
    "tms \<noteq> []"
  shows "send_all tms s =
           s\<lparr>queue := queue s @ map snd tms, timer := Some (next_timer s),
             next_timer := Suc (next_timer s),
             timeouts := (timeouts s)(next_timer s \<mapsto> t0 + interval)\<rparr>"
proof -
  obtain t m rest where tms: "tms = (t, m) # rest"
    using assms(4) by (cases tms) auto
  from assms(3) tms have q: "t \<noteq> 0" "t - t0 < interval" "mtype m \<in> set typesToQueue"
    by auto
  let ?s1 = "setTimeout t (interval - (t - t0)) (s\<lparr>queue := queue s @ [m]\<rparr>)"
  have 1: "send t m s = ?s1"
    using send_queues [OF assms(2) q] assms(1) by simp
  have m: "t + max 0 (interval - (t - t0)) = t0 + interval"
    using q(2) by simp
  have 2: "?s1 = s\<lparr>queue := queue s @ [m], timer := Some (next_timer s),
             next_timer := Suc (next_timer s),
             timeouts := (timeouts s)(next_timer s \<mapsto> t0 + interval)\<rparr>"
    unfolding setTimeout_def Let_def using m by (simp add: add.commute)
  have 3: "send_all rest ?s1 = ?s1\<lparr>queue := queue ?s1 @ map snd rest\<rparr>"
    by (rule send_all_pending [where ?t0.0 = t0]) (use assms tms in \<open>auto simp: setTimeout_def Let_def\<close>)
  show ?thesis
    by (simp add: tms 1 3) (simp add: 2)
qed


lemma delayFn_full:
  assumes "queue s = data # rest" "throughput \<le> length (queue s)"
  shows "delayFn now s =
           (deliver (Group (take throughput (queue s)) (mid data) (rid data)) s)
             \<lparr>queue := drop throughput (queue s), timer := Some (next_timer s),
              next_timer := Suc (next_timer s),
              timeouts := (case timer s of None \<Rightarrow> timeouts s | Some i \<Rightarrow> (timeouts s)(i := None))
                            (next_timer s \<mapsto> now + interval),
              timestamp := date_now now\<rparr>"
  using assms
  by (simp add: delayFn_def Let_def deliver_def emit_def clearTimeout_def setTimeout_def interval_def
           split: option.splits)





lemma ready_socket_eq:
  "ready_socket =
     \<lparr>ports = default_ports, protocol = Http, connected = True, dead = False,
      retries_current = 0, port = Some 6001, transport = WebSocket, transportFallback = False,
      path = Some (Http, Some 6001), socket = Some 0, next_socket = 1, listeners = {0},
      queue = [], timestamp = TNum 5000, timer = None, next_timer = 1, timeouts = Map.empty,
      trace = [IoConnect Http (Some 6001) WebSocket, Trigger EvConnect,
               SocketSend 0 (Plain (chat 0))]\<rparr>"
  by (simp add: ready_socket_def new_socket_def construct_def pristine_def reset_def connect_def Let_def emit_def
        listenToEvents_def socket_event_def send_def limitMessageInterval_def elapsed_def
        date_now_def deliver_def interval_def default_ports_def ports_of_def)



subsection \<open>A queue that is never drained\<close>

lemma handed_append: "handed (xs @ ys) = handed xs @ handed ys"
  by (induction xs rule: handed.induct) auto

lemma connect_messaging:
  "queue (connect s) = queue s" "timer (connect s) = timer s"
  "timeouts (connect s) = timeouts s" "handed (trace (connect s)) = handed (trace s)"
  by (simp_all add: connect_def Let_def emit_def listenToEvents_def handed_append)

lemma disconnect_messaging:
  "queue (disconnect s) = queue s" "timer (disconnect s) = timer s"
  "timeouts (disconnect s) = timeouts s" "handed (trace (disconnect s)) = handed (trace s)"
  by (simp_all add: disconnect_def emit_def handed_append split: option.splits)

lemma reset_messaging:
  "queue (reset w s) = queue s" "timer (reset w s) = timer s"
  "timeouts (reset w s) = timeouts s" "handed (trace (reset w s)) = handed (trace s)"
  by (simp_all add: reset_def Let_def)

lemma restart_messaging:
  "queue (restart i s) = queue s" "timer (restart i s) = timer s"
  "timeouts (restart i s) = timeouts s" "handed (trace (restart i s)) = handed (trace s)"
  by (simp_all add: restart_def connect_messaging emit_def handed_append)

lemma reconnect_messaging:
  "queue (reconnect s) = queue s" "timer (reconnect s) = timer s"
  "timeouts (reconnect s) = timeouts s" "handed (trace (reconnect s)) = handed (trace s)"
  by (simp_all add: reconnect_def teardown_def Let_def restart_messaging disconnect_messaging emit_def
        handed_append split: option.splits)

lemma on_event_messaging:
  "queue (on_event ev s) = queue s" "timer (on_event ev s) = timer s"
  "timeouts (on_event ev s) = timeouts s" "handed (trace (on_event ev s)) = handed (trace s)"
  by (cases "(ev, s)" rule: on_event.cases;
      simp add: reconnect_messaging emit_def handed_append Let_def)+

lemma stuck_step:
  assumes "stuck s"
  shows "stuck (step a s) \<and> (\<exists>more. queue (step a s) = queue s @ more)
     \<and> (\<exists>new. handed (trace (step a s)) = handed (trace s) @ new \<and> \<not> list_ex is_group new)"
proof (cases a)
  case (Send now m)
  show ?thesis
    using assms
    by (auto simp add: Send send_def limitMessageInterval_def Let_def stuck_def deliver_def
          emit_def handed_append split: option.splits)
next
  case (Fire i now)
  then show ?thesis using assms by (simp add: fire_def stuck_def)
next
  case (Event i ev)
  then show ?thesis using assms
    by (simp add: socket_event_def stuck_def on_event_messaging)
next
  case Connect
  then show ?thesis using assms by (simp add: stuck_def connect_messaging)
next
  case Disconnect
  then show ?thesis using assms by (simp add: stuck_def disconnect_messaging)
next
  case (Reset w)
  then show ?thesis using assms by (simp add: stuck_def reset_messaging)
qed

lemma stuck_run:
  assumes "stuck s"
  shows "stuck (run acts s) \<and> (\<exists>more. queue (run acts s) = queue s @ more)
     \<and> (\<exists>new. handed (trace (run acts s)) = handed (trace s) @ new \<and> \<not> list_ex is_group new)"
  using assms
proof (induction acts arbitrary: s)
  case Nil
  then show ?case by simp
next
  case (Cons a acts)
  from stuck_step [OF Cons.prems, of a] obtain more new where
    1: "stuck (step a s)" "queue (step a s) = queue s @ more"
      "handed (trace (step a s)) = handed (trace s) @ new" "\<not> list_ex is_group new"
    by blast
  from Cons.IH [OF 1(1)] obtain more' new' where
    2: "stuck (run acts (step a s))" "queue (run acts (step a s)) = queue (step a s) @ more'"
      "handed (trace (run acts (step a s))) = handed (trace (step a s)) @ new'"
      "\<not> list_ex is_group new'"
    by blast
  have "handed (trace (run (a # acts) s)) = handed (trace s) @ (new @ new')"
    "\<not> list_ex is_group (new @ new')" "queue (run (a # acts) s) = queue s @ (more @ more')"
    using 1 2 by simp_all
  then show ?case using 2(1) by (metis run.simps(2))
qed

lemma burst_length: "length (burst n) = n"
  by (simp add: burst_def)

lemma burst_member:
  "m \<in> set (map snd (burst n)) \<Longrightarrow> mid m = Some ''me'' \<and> rid m = Some ''room''"
  by (auto simp add: burst_def chat_def)

lemma burst16_ok:
  "\<forall>(t, m) \<in> set (burst 16). t \<noteq> 0 \<and> t - 5000 < interval \<and> mtype m \<in> set typesToQueue"
  by (simp add: burst_def chat_def interval_def typesToQueue_def)

lemma ready_fields:
  "queue ready_socket = []" "next_timer ready_socket = 1" "timeouts ready_socket = Map.empty"
  "socket ready_socket = Some 0" "connected ready_socket" "timer ready_socket = None"
  "timestamp ready_socket = TNum 5000"
  by (simp_all add: ready_socket_eq)

lemma lost1:
  "send_all (burst 16) ready_socket =
     ready_socket\<lparr>queue := map snd (burst 16), timer := Some 1, next_timer := 2,
                  timeouts := [1 \<mapsto> 6000]\<rparr>"
proof -
  have ne: "burst 16 \<noteq> []" using burst_length [of 16] by auto
  show ?thesis
    using send_all_first [OF ready_fields(6,7) burst16_ok ne]
    by (simp add: ready_fields interval_def)
qed

lemma lost2:
  "fire 1 6000 (send_all (burst 16) ready_socket) =
     ready_socket\<lparr>queue := [], timer := Some 2, next_timer := 3,
                  timeouts := [2 \<mapsto> 7000], timestamp := TNum 6000,
                  trace := trace ready_socket @
                    [SocketSend 0 (Group (map snd (burst 16)) (Some ''me'') (Some ''room''))]\<rparr>"
proof -
  let ?s = "ready_socket\<lparr>queue := map snd (burst 16), timer := Some 1, next_timer := 2,
                  timeouts := Map.empty\<rparr>"
  obtain d r where dr: "map snd (burst 16) = d # r"
    using burst_length [of 16] by (cases "map snd (burst 16)") auto
  have q: "queue ?s = d # r" by (simp add: dr)
  have l: "throughput \<le> length (queue ?s)" by (simp add: throughput_def burst_length)
  have m: "mid d = Some ''me''" "rid d = Some ''room''"
    using burst_member [of d 16] by (simp_all add: dr)
  have "fire 1 6000 (send_all (burst 16) ready_socket) = delayFn 6000 ?s"
    by (simp add: lost1 fire_def)
  also have "\<dots> = ready_socket\<lparr>queue := [], timer := Some 2, next_timer := 3,
                  timeouts := [2 \<mapsto> 7000], timestamp := TNum 6000,
                  trace := trace ready_socket @
                    [SocketSend 0 (Group (map snd (burst 16)) (Some ''me'') (Some ''room''))]\<rparr>"
    unfolding delayFn_full [OF q l]
    by (simp add: m throughput_def deliver_def emit_def ready_fields interval_def date_now_def
          burst_length)
  finally show ?thesis .
qed

lemma mtype_chat: "mtype (chat i) = ''public''"
  by (simp add: chat_def)

lemma lost_state_eq:
  "lost_state =
     ready_socket\<lparr>queue := [chat 18], timer := Some 2, next_timer := 3,
                  timeouts := Map.empty, timestamp := TNum 8000,
                  trace := trace ready_socket @
                    [SocketSend 0 (Group (map snd (burst 16)) (Some ''me'') (Some ''room'')),
                     SocketSend 0 (Plain (chat 17))]\<rparr>"
  unfolding lost_state_def lost2
  by (simp add: fire_def delayFn_def send_def limitMessageInterval_def Let_def elapsed_def
        date_now_def interval_def deliver_def emit_def ready_fields typesToQueue_def
        mtype_chat)

text \<open>
  Claim C4 (the code loses a queued message). In \<open>lost_state\<close> the message \<open>chat 18\<close>
  is in the queue, \<open>_messaging.timer\<close> still holds the handle of a timeout that has
  already run, and no timeout is pending: \<open>send\<close> sets no new timeout, so whatever
  happens next the message stays at the head of the queue and no group is handed to the
  socket or dropped with a warning any more.
\<close>

theorem queued_message_never_leaves:
  "queue lost_state = [chat 18] \<and> timer lost_state = Some 2
   \<and> timeouts lost_state = Map.empty
   \<and> handed (trace lost_state) =
       [Plain (chat 0), Group (map snd (burst 16)) (Some ''me'') (Some ''room''),
        Plain (chat 17)]
   \<and> (\<forall>acts. \<exists>more new.
         queue (run acts lost_state) = chat 18 # more
         \<and> handed (trace (run acts lost_state)) = handed (trace lost_state) @ new
         \<and> \<not> list_ex is_group new)"
proof -
  have st: "stuck lost_state" by (simp add: stuck_def lost_state_eq)
  have a: "queue lost_state = [chat 18]" "timer lost_state = Some 2"
    "timeouts lost_state = Map.empty"
    by (simp_all add: lost_state_eq)
  have b: "handed (trace lost_state) =
       [Plain (chat 0), Group (map snd (burst 16)) (Some ''me'') (Some ''room''),
        Plain (chat 17)]"
    by (simp add: lost_state_eq ready_socket_eq)
  have c: "\<exists>more new.
         queue (run acts lost_state) = chat 18 # more
         \<and> handed (trace (run acts lost_state)) = handed (trace lost_state) @ new
         \<and> \<not> list_ex is_group new" for acts
    using stuck_run [OF st, of acts] by (simp add: a)
  from a b c show ?thesis by blast
qed

subsection \<open>A burst on an idle transport\<close>





subsection \<open>The order of reconnection\<close>

lemma attempts_append: "attempts (xs @ ys) = attempts xs @ attempts ys"
  by (induction xs rule: attempts.induct) auto

lemma terminal_errors_append: "terminal_errors (xs @ ys) = terminal_errors xs + terminal_errors ys"
  by (induction xs rule: terminal_errors.induct) auto

lemma nth_opt_nth: "n < length xs \<Longrightarrow> nth_opt xs n = Some (xs ! n)"
  by (induction xs n rule: nth_opt.induct) auto

lemma indexOf_nth: "distinct xs \<Longrightarrow> n < length xs \<Longrightarrow> indexOf xs (xs ! n) = Some n"
proof (induction xs arbitrary: n)
  case Nil
  then show ?case by simp
next
  case (Cons a xs)
  then show ?case by (cases n) auto
qed

lemma fail_advance:
  assumes "socket c = Some i" and "i \<in> listeners c" and "port c = Some p"
    and "indexOf (ports_of (ports c) (protocol c)) p = Some j"
    and "Suc j < length (ports_of (ports c) (protocol c))"
    and "ports_of (ports c) (protocol c) ! Suc j \<noteq> 0"
  shows "socket (fail c) = Some (next_socket c) \<and> next_socket c \<in> listeners (fail c)
    \<and> port (fail c) = Some (ports_of (ports c) (protocol c) ! Suc j)
    \<and> transport (fail c) = transport c \<and> ports (fail c) = ports c
    \<and> protocol (fail c) = protocol c \<and> \<not> dead (fail c)
    \<and> attempts (trace (fail c)) =
        attempts (trace c) @ [(Some (ports_of (ports c) (protocol c) ! Suc j), transport c)]
    \<and> terminal_errors (trace (fail c)) = terminal_errors (trace c)"
  using assms
  by (simp add: fail_def socket_event_def reconnect_def teardown_def restart_def connect_def Let_def
        disconnect_def emit_def listenToEvents_def nth_opt_nth attempts_append
        terminal_errors_append)

lemma fail_fallback:
  assumes "socket c = Some i" and "i \<in> listeners c" and "port c = Some p"
    and "indexOf (ports_of (ports c) (protocol c)) p = Some j"
    and "Suc j = length (ports_of (ports c) (protocol c))"
    and "ports_of (ports c) (protocol c) ! 0 \<noteq> 0"
    and "transport c = WebSocket"
  shows "socket (fail c) = Some (next_socket c) \<and> next_socket c \<in> listeners (fail c)
    \<and> port (fail c) = Some (ports_of (ports c) (protocol c) ! 0)
    \<and> transport (fail c) = Polling \<and> ports (fail c) = ports c
    \<and> protocol (fail c) = protocol c \<and> \<not> dead (fail c)
    \<and> attempts (trace (fail c)) =
        attempts (trace c) @ [(Some (ports_of (ports c) (protocol c) ! 0), Polling)]
    \<and> terminal_errors (trace (fail c)) = terminal_errors (trace c)"
proof -
  have "0 < length (ports_of (ports c) (protocol c))"
    using assms(5) by (metis zero_less_Suc)
  then have "nth_opt (ports_of (ports c) (protocol c)) 0 = Some (ports_of (ports c) (protocol c) ! 0)"
    by (rule nth_opt_nth)
  with assms show ?thesis
    by (simp add: fail_def socket_event_def reconnect_def teardown_def restart_def connect_def Let_def
        disconnect_def emit_def listenToEvents_def attempts_append terminal_errors_append)
qed

lemma fail_terminal:
  assumes "socket c = Some i" and "i \<in> listeners c" and "port c = Some p"
    and "indexOf (ports_of (ports c) (protocol c)) p = Some j"
    and "Suc j = length (ports_of (ports c) (protocol c))"
    and "transport c = Polling"
  shows "socket (fail c) = Some i \<and> i \<notin> listeners (fail c) \<and> dead (fail c)
    \<and> attempts (trace (fail c)) = attempts (trace c)
    \<and> terminal_errors (trace (fail c)) = Suc (terminal_errors (trace c))"
  using assms
  by (simp add: fail_def socket_event_def reconnect_def teardown_def Let_def
        disconnect_def emit_def attempts_append terminal_errors_append)

lemma fail_ignored:
  assumes "socket c = Some i" and "i \<notin> listeners c"
  shows "fail c = c"
  using assms by (simp add: fail_def socket_event_def)

lemma length_expected: "length (expected ps) = 2 * length ps"
  by (simp add: expected_def)

lemma expected_nth:
  "n < 2 * length ps \<Longrightarrow>
     expected ps ! n =
       (Some (ps ! (if n < length ps then n else n - length ps)),
        if n < length ps then WebSocket else Polling)"
  by (simp add: expected_def nth_append)

lemma distinct_expected: "distinct ps \<Longrightarrow> distinct (expected ps)"
  by (auto simp add: expected_def distinct_map inj_on_def)

lemma drop_expected: "drop (length ps) (expected ps) = map (\<lambda>p. (Some p, Polling)) ps"
  by (simp add: expected_def)

lemma schedule_drop:
  "schedule t ps = drop (case t of WebSocket \<Rightarrow> 0 | Polling \<Rightarrow> length ps) (expected ps)"
  by (cases t) (simp_all add: schedule_def drop_expected)

lemma running_start:
  assumes "ports_of (ports s) (protocol s) = ps" and "ps \<noteq> []" and "port s = Some 0"
    and "off = 0 \<and> transport s = WebSocket \<or> off = length ps \<and> transport s = Polling"
  shows "running ps s off 0 (connect s)"
proof -
  obtain p r where ps: "ps = p # r" using assms(2) by (cases ps) auto
  from assms(4) show ?thesis
  proof
    assume "off = 0 \<and> transport s = WebSocket"
    with assms(1,3) show ?thesis
      by (simp add: running_def connect_def Let_def emit_def listenToEvents_def ps
            attempts_append terminal_errors_append expected_def)
  next
    assume a: "off = length ps \<and> transport s = Polling"
    then have "drop off (expected ps) = map (\<lambda>p. (Some p, Polling)) ps"
      by (simp add: drop_expected)
    with a assms(1,3) show ?thesis
      by (simp add: running_def connect_def Let_def emit_def listenToEvents_def ps
            attempts_append terminal_errors_append)
  qed
qed

lemma running_step:
  assumes "distinct ps" and "0 \<notin> set ps" and "running ps s off n c"
    and "Suc (off + n) < 2 * length ps"
  shows "running ps s off (Suc n) (fail c)"
proof -
  define m where "m = off + n"
  from assms(3) obtain i where
    c: "socket c = Some i" "i \<in> listeners c" "ports_of (ports c) (protocol c) = ps"
      "transport c = (if m < length ps then WebSocket else Polling)"
      "port c = Some (ps ! (if m < length ps then m else m - length ps))"
      "\<not> dead c"
      "attempts (trace c) = attempts (trace s) @ take (Suc n) (drop off (expected ps))"
      "terminal_errors (trace c) = terminal_errors (trace s)"
    unfolding running_def m_def by blast
  have m2: "Suc m < 2 * length ps" using assms(4) by (simp add: m_def)
  define j where "j = (if m < length ps then m else m - length ps)"
  have j: "j < length ps" using m2 by (auto simp add: j_def)
  have idx: "indexOf (ports_of (ports c) (protocol c)) (ps ! j) = Some j"
    using indexOf_nth [OF assms(1) j] by (simp add: c(3))
  have pj: "port c = Some (ps ! j)" using c(5) by (simp add: j_def)
  have nz: "k < length ps \<Longrightarrow> ps ! k \<noteq> 0" for k
    using assms(2) by (metis nth_mem)
  have ln: "Suc n < length (drop off (expected ps))"
    using assms(4) by (simp add: length_expected)
  have "drop off (expected ps) ! Suc n = expected ps ! Suc m"
    using assms(4) by (simp add: length_expected m_def)
  then have tk: "take (Suc (Suc n)) (drop off (expected ps)) =
      take (Suc n) (drop off (expected ps)) @ [expected ps ! Suc m]"
    using ln by (simp add: take_Suc_conv_app_nth)
  have en: "expected ps ! Suc m =
       (Some (ps ! (if Suc m < length ps then Suc m else Suc m - length ps)),
        if Suc m < length ps then WebSocket else Polling)"
    using m2 by (rule expected_nth)
  have goal: "running ps s off (Suc n) (fail c) =
     ((\<exists>i. socket (fail c) = Some i \<and> i \<in> listeners (fail c))
      \<and> ports_of (ports (fail c)) (protocol (fail c)) = ps
      \<and> transport (fail c) = (if Suc m < length ps then WebSocket else Polling)
      \<and> port (fail c) = Some (ps ! (if Suc m < length ps then Suc m else Suc m - length ps))
      \<and> \<not> dead (fail c)
      \<and> attempts (trace (fail c)) =
          attempts (trace s) @ take (Suc (Suc n)) (drop off (expected ps))
      \<and> terminal_errors (trace (fail c)) = terminal_errors (trace s))"
    by (simp add: running_def m_def)
  consider (advance) "Suc j < length ps" | (switch) "Suc j = length ps" "m < length ps"
    | (last) "Suc j = length ps" "\<not> m < length ps"
    using j by linarith
  then show ?thesis
  proof cases
    case advance
    have "ports_of (ports c) (protocol c) ! Suc j \<noteq> 0"
      using nz [OF advance] by (simp add: c(3))
    from fail_advance [OF c(1,2) pj idx _ this] advance
    have f: "socket (fail c) = Some (next_socket c)" "next_socket c \<in> listeners (fail c)"
      "port (fail c) = Some (ps ! Suc j)" "transport (fail c) = transport c"
      "ports (fail c) = ports c" "protocol (fail c) = protocol c" "\<not> dead (fail c)"
      "attempts (trace (fail c)) = attempts (trace c) @ [(Some (ps ! Suc j), transport c)]"
      "terminal_errors (trace (fail c)) = terminal_errors (trace c)"
      by (simp_all add: c(3))
    have sj: "(Suc m < length ps) = (m < length ps)"
      "m < length ps \<Longrightarrow> Suc m = Suc j" "\<not> m < length ps \<Longrightarrow> Suc m - length ps = Suc j"
      using advance m2 by (auto simp add: j_def split: if_splits)
    show ?thesis
      unfolding goal using f c
      by (simp add: tk en sj)
  next
    case switch
    then have jn: "j = m" by (simp add: j_def)
    have "0 < length ps" using j by (cases ps) auto
    then have "ports_of (ports c) (protocol c) ! 0 \<noteq> 0"
      using nz [of 0] by (simp add: c(3))
    from fail_fallback [OF c(1,2) pj idx _ this] switch c(4)
    have f: "socket (fail c) = Some (next_socket c)" "next_socket c \<in> listeners (fail c)"
      "port (fail c) = Some (ps ! 0)" "transport (fail c) = Polling"
      "ports (fail c) = ports c" "protocol (fail c) = protocol c" "\<not> dead (fail c)"
      "attempts (trace (fail c)) = attempts (trace c) @ [(Some (ps ! 0), Polling)]"
      "terminal_errors (trace (fail c)) = terminal_errors (trace c)"
      by (simp_all add: c(3))
    have sj: "\<not> Suc m < length ps" "Suc m - length ps = 0"
      using switch jn by simp_all
    show ?thesis
      unfolding goal using f c
      by (simp add: tk en sj)
  next
    case last
    then have "Suc m = 2 * length ps" by (simp add: j_def)
    with m2 show ?thesis by simp
  qed
qed

lemma running_funpow:
  assumes "ports_of (ports s) (protocol s) = ps" and "distinct ps" and "0 \<notin> set ps"
    and "ps \<noteq> []" and "port s = Some 0"
    and "off = 0 \<and> transport s = WebSocket \<or> off = length ps \<and> transport s = Polling"
  shows "off + n < 2 * length ps \<Longrightarrow> running ps s off n ((fail ^^ n) (connect s))"
proof (induction n)
  case 0
  show ?case using running_start [OF assms(1,4,5,6)] by simp
next
  case (Suc n)
  then have "running ps s off n ((fail ^^ n) (connect s))" by simp
  from running_step [OF assms(2,3) this] Suc.prems show ?case by simp
qed

lemma running_last:
  assumes "distinct ps" and "running ps s off n c" and "Suc (off + n) = 2 * length ps"
  shows "ended ps s off (fail c)"
proof -
  define m where "m = off + n"
  from assms(2) obtain i where
    c: "socket c = Some i" "i \<in> listeners c" "ports_of (ports c) (protocol c) = ps"
      "transport c = (if m < length ps then WebSocket else Polling)"
      "port c = Some (ps ! (if m < length ps then m else m - length ps))"
      "attempts (trace c) = attempts (trace s) @ take (Suc n) (drop off (expected ps))"
      "terminal_errors (trace c) = terminal_errors (trace s)"
    unfolding running_def m_def by blast
  have m2: "Suc m = 2 * length ps" using assms(3) by (simp add: m_def)
  have k: "0 < length ps" "\<not> m < length ps" "Suc (m - length ps) = length ps"
    using m2 by auto
  have j: "m - length ps < length ps" using k by linarith
  have idx: "indexOf (ports_of (ports c) (protocol c)) (ps ! (m - length ps)) = Some (m - length ps)"
    using indexOf_nth [OF assms(1) j] by (simp add: c(3))
  have pj: "port c = Some (ps ! (m - length ps))" using c(5) k by simp
  have tr: "transport c = Polling" using c(4) k by simp
  have sj: "Suc (m - length ps) = length (ports_of (ports c) (protocol c))"
    using k by (simp add: c(3))
  have all: "take (Suc n) (drop off (expected ps)) = drop off (expected ps)"
    using assms(3) by (simp add: length_expected)
  from fail_terminal [OF c(1,2) pj idx sj tr]
  show ?thesis unfolding ended_def by (simp add: c all)
qed

lemma ended_fail: "ended ps s off c \<Longrightarrow> fail c = c"
  unfolding ended_def using fail_ignored by blast

lemma ended_funpow: "ended ps s off c \<Longrightarrow> (fail ^^ m) c = c"
  by (induction m) (simp_all add: ended_fail)

lemma ended_from:
  assumes "ports_of (ports s) (protocol s) = ps" and "distinct ps" and "0 \<notin> set ps"
    and "ps \<noteq> []" and "port s = Some 0"
    and "off = 0 \<and> transport s = WebSocket \<or> off = length ps \<and> transport s = Polling"
    and "2 * length ps \<le> off + n"
  shows "ended ps s off ((fail ^^ n) (connect s))"
proof -
  have "off < 2 * length ps" using assms(4,6) by (cases ps) auto
  then obtain m where m: "2 * length ps = Suc (off + m)"
    by (metis add_Suc_right less_iff_Suc_add)
  have "running ps s off m ((fail ^^ m) (connect s))"
    using running_funpow [OF assms(1-6), of m] m by simp
  from running_last [OF assms(2) this] m
  have e: "ended ps s off ((fail ^^ Suc m) (connect s))" by simp
  have "n = (n - Suc m) + Suc m" using assms(7) m by simp
  then have "(fail ^^ n) (connect s) = (fail ^^ (n - Suc m)) ((fail ^^ Suc m) (connect s))"
    by (metis funpow_add o_apply)
  with ended_funpow [OF e] e show ?thesis by simp
qed

lemma campaign:
  assumes "ports_of (ports s) (protocol s) = ps" and "distinct ps" and "0 \<notin> set ps"
    and "ps \<noteq> []" and "port s = Some 0"
  shows "attempts (trace ((fail ^^ n) (connect s))) =
           attempts (trace s) @ take (Suc n) (schedule (transport s) ps)
    \<and> dead ((fail ^^ n) (connect s)) = (length (schedule (transport s) ps) \<le> n)
    \<and> terminal_errors (trace ((fail ^^ n) (connect s))) =
        terminal_errors (trace s) + (if length (schedule (transport s) ps) \<le> n then 1 else 0)
    \<and> (n < length (schedule (transport s) ps) \<longrightarrow>
         (port ((fail ^^ n) (connect s)), transport ((fail ^^ n) (connect s))) =
           schedule (transport s) ps ! n)"
proof -
  define off where "off = (case transport s of WebSocket \<Rightarrow> 0 | Polling \<Rightarrow> length ps)"
  have o: "off = 0 \<and> transport s = WebSocket \<or> off = length ps \<and> transport s = Polling"
    by (cases "transport s") (simp_all add: off_def)
  have sd: "schedule (transport s) ps = drop off (expected ps)"
    by (simp add: schedule_drop off_def)
  have ls: "length (schedule (transport s) ps) = 2 * length ps - off"
    by (simp add: sd length_expected)
  have ol: "off \<le> 2 * length ps" using o by auto
  show ?thesis
  proof (cases "off + n < 2 * length ps")
    case True
    then have nl: "n < length (schedule (transport s) ps)" by (simp add: ls)
    have "drop off (expected ps) ! n = expected ps ! (off + n)"
      using ol by (simp add: length_expected)
    also have "\<dots> = (Some (ps ! (if off + n < length ps then off + n else off + n - length ps)),
        if off + n < length ps then WebSocket else Polling)"
      using True by (rule expected_nth)
    finally have nth: "schedule (transport s) ps ! n =
        (Some (ps ! (if off + n < length ps then off + n else off + n - length ps)),
        if off + n < length ps then WebSocket else Polling)"
      by (simp add: sd)
    from running_funpow [OF assms o True] nl
    show ?thesis
      unfolding running_def nth by (simp add: sd)
  next
    case False
    then have le: "2 * length ps \<le> off + n" by simp
    then have nl: "length (schedule (transport s) ps) \<le> n" by (simp add: ls)
    then have "take (Suc n) (schedule (transport s) ps) = schedule (transport s) ps"
      by simp
    with ended_from [OF assms o le] nl
    show ?thesis
      unfolding ended_def by (simp add: sd)
  qed
qed

lemma reset_fields:
  "ports (reset w s) = ports s" "protocol (reset w s) = protocol s"
  "trace (reset w s) = trace s" "port (reset w s) = Some 0"
  "transport (reset w s) = (if w then WebSocket else Polling)"
  by (simp_all add: reset_def Let_def)

text \<open>
  Claim C2 (amended). Both transports use the one list of ports of the current protocol.
  When that list \<open>ps\<close> has no port twice and no port \<open>0\<close> and is not empty, the
  \<open>io.connect\<close> calls after \<open>reset()\<close>, \<open>connect()\<close> and \<open>n\<close> failures are the first
  \<open>n + 1\<close> of a fixed plan. With \<open>window.WebSocket\<close> the plan is every port under
  \<open>WebSocket\<close>, then every port under \<open>Polling\<close>; without it \<open>reset()\<close> starts under
  \<open>Polling\<close> and the plan is every port under \<open>Polling\<close> only. No combination comes
  twice; \<open>dead\<close> is set exactly from the failure that exhausts the plan on, the error
  \<open>-3\<close> is raised once, and later failures add no call.
\<close>

theorem exhaustion_order:
  assumes "ports_of (ports s) (protocol s) = ps" and "distinct ps" and "0 \<notin> set ps"
    and "ps \<noteq> []"
  shows "(let c = (fail ^^ n) (connect (reset w s));
              plan = schedule (if w then WebSocket else Polling) ps
          in attempts (trace c) = attempts (trace s) @ take (Suc n) plan
             \<and> dead c = (length plan \<le> n)
             \<and> terminal_errors (trace c) =
                 terminal_errors (trace s) + (if length plan \<le> n then 1 else 0)
             \<and> (n < length plan \<longrightarrow> (port c, transport c) = plan ! n)
             \<and> distinct plan)
         \<and> schedule WebSocket ps =
             map (\<lambda>p. (Some p, WebSocket)) ps @ map (\<lambda>p. (Some p, Polling)) ps
         \<and> schedule Polling ps = map (\<lambda>p. (Some p, Polling)) ps"
proof -
  have r: "ports_of (ports (reset w s)) (protocol (reset w s)) = ps"
    "port (reset w s) = Some 0"
    using assms(1) by (simp_all add: reset_fields)
  have d: "distinct (schedule t ps)" for t
    using assms(2) distinct_expected [OF assms(2)]
    by (cases t) (auto simp add: schedule_def distinct_map inj_on_def)
  have e: "schedule WebSocket ps =
             map (\<lambda>p. (Some p, WebSocket)) ps @ map (\<lambda>p. (Some p, Polling)) ps"
    "schedule Polling ps = map (\<lambda>p. (Some p, Polling)) ps"
    by (simp_all add: schedule_def expected_def)
  from campaign [OF r(1) assms(2,3,4) r(2), of n] d e
  show ?thesis
    unfolding Let_def reset_fields by blast
qed

lemma default_http:
  "ports_of (ports (new_socket default_ports Http w)) (protocol (new_socket default_ports Http w))
     = [6001, 80, 3000]"
  "port (new_socket default_ports Http w) = Some 0"
  "transport (new_socket default_ports Http w) = (if w then WebSocket else Polling)"
  "trace (new_socket default_ports Http w) = []"
  "reset w (new_socket default_ports Http w) = new_socket default_ports Http w"
  by (simp_all add: new_socket_def construct_def pristine_def reset_def default_ports_def
        ports_of_def Let_def)

theorem exhaustion_order_witness:
  "attempts (trace ((fail ^^ 6) (connect (new_socket default_ports Http True)))) =
     [(Some 6001, WebSocket), (Some 80, WebSocket), (Some 3000, WebSocket),
      (Some 6001, Polling), (Some 80, Polling), (Some 3000, Polling)]
   \<and> dead ((fail ^^ 6) (connect (new_socket default_ports Http True)))
   \<and> terminal_errors (trace ((fail ^^ 6) (connect (new_socket default_ports Http True)))) = 1
   \<and> \<not> dead ((fail ^^ 3) (connect (new_socket default_ports Http True)))
   \<and> transport ((fail ^^ 3) (connect (new_socket default_ports Http True))) = Polling
   \<and> port ((fail ^^ 3) (connect (new_socket default_ports Http True))) = Some 6001"
proof -
  have d: "distinct [6001, 80, 3000 :: nat]" "0 \<notin> set [6001, 80, 3000 :: nat]"
    "[6001, 80, 3000 :: nat] \<noteq> []"
    by simp_all
  have sw: "schedule WebSocket [6001, 80, 3000] =
      [(Some 6001, WebSocket), (Some 80, WebSocket), (Some 3000, WebSocket),
       (Some 6001, Polling), (Some 80, Polling), (Some 3000, Polling)]"
    by (simp add: schedule_def expected_def)
  from exhaustion_order [where w = True and n = 6, OF default_http(1) [of True] d]
  have 1: "attempts (trace ((fail ^^ 6) (connect (new_socket default_ports Http True)))) =
     [(Some 6001, WebSocket), (Some 80, WebSocket), (Some 3000, WebSocket),
      (Some 6001, Polling), (Some 80, Polling), (Some 3000, Polling)]
   \<and> dead ((fail ^^ 6) (connect (new_socket default_ports Http True)))
   \<and> terminal_errors (trace ((fail ^^ 6) (connect (new_socket default_ports Http True)))) = 1"
    by (simp add: Let_def default_http(4,5) sw)
  from exhaustion_order [where w = True and n = 3, OF default_http(1) [of True] d]
  have 2: "\<not> dead ((fail ^^ 3) (connect (new_socket default_ports Http True)))
   \<and> transport ((fail ^^ 3) (connect (new_socket default_ports Http True))) = Polling
   \<and> port ((fail ^^ 3) (connect (new_socket default_ports Http True))) = Some 6001"
    by (simp add: Let_def default_http(5) sw)
  from 1 2 show ?thesis by blast
qed

text \<open>
  Against claim C2 as stated: where \<open>window.WebSocket\<close> is missing \<open>reset()\<close> starts
  under \<open>Polling\<close>, so with the three default ports of \<open>http:\<close> the third failure in a row
  already sets \<open>dead\<close>: no port was tried under \<open>WebSocket\<close>, nothing was switched, and
  there is no fourth call.
\<close>

theorem exhaustion_counterexample:
  "dead ((fail ^^ 3) no_websocket)
   \<and> attempts (trace ((fail ^^ 3) no_websocket)) =
       [(Some 6001, Polling), (Some 80, Polling), (Some 3000, Polling)]
   \<and> attempts (trace ((fail ^^ 4) no_websocket)) =
       [(Some 6001, Polling), (Some 80, Polling), (Some 3000, Polling)]
   \<and> terminal_errors (trace ((fail ^^ 3) no_websocket)) = 1"
proof -
  have d: "distinct [6001, 80, 3000 :: nat]" "0 \<notin> set [6001, 80, 3000 :: nat]"
    "[6001, 80, 3000 :: nat] \<noteq> []"
    by simp_all
  have s: "schedule (transport (new_socket default_ports Http False)) [6001, 80, 3000] =
      [(Some 6001, Polling), (Some 80, Polling), (Some 3000, Polling)]"
    by (simp add: default_http(3) schedule_def)
  from campaign [where n = 3, OF default_http(1) [of False] d default_http(2) [of False]]
    campaign [where n = 4, OF default_http(1) [of False] d default_http(2) [of False]]
  show ?thesis
    unfolding no_websocket_def s by (simp add: default_http(4))
qed

text \<open>
  A port listed twice is found by \<open>indexOf\<close> at its first place every time: the second
  place is tried again and again and the reconnection never ends.
\<close>

lemma twice_80_loop:
  "(\<exists>i. socket ((fail ^^ n) (connect twice_80)) = Some i
         \<and> i \<in> listeners ((fail ^^ n) (connect twice_80)))
   \<and> port ((fail ^^ n) (connect twice_80)) = Some 80
   \<and> ports_of (ports ((fail ^^ n) (connect twice_80))) (protocol ((fail ^^ n) (connect twice_80)))
       = [80, 80]
   \<and> transport ((fail ^^ n) (connect twice_80)) = WebSocket
   \<and> \<not> dead ((fail ^^ n) (connect twice_80))
   \<and> attempts (trace ((fail ^^ n) (connect twice_80))) = replicate (Suc n) (Some 80, WebSocket)"
proof (induction n)
  case 0
  show ?case
    by (simp add: twice_80_def new_socket_def construct_def pristine_def reset_def connect_def
          Let_def emit_def listenToEvents_def ports_of_def)
next
  case (Suc n)
  let ?c = "(fail ^^ n) (connect twice_80)"
  from Suc obtain i where c: "socket ?c = Some i" "i \<in> listeners ?c" "port ?c = Some 80"
    "ports_of (ports ?c) (protocol ?c) = [80, 80]" "transport ?c = WebSocket"
    "attempts (trace ?c) = replicate (Suc n) (Some 80, WebSocket)"
    by blast
  from fail_advance [OF c(1,2,3), of 0] c(4)
  have "socket (fail ?c) = Some (next_socket ?c)" "next_socket ?c \<in> listeners (fail ?c)"
    "port (fail ?c) = Some 80" "ports (fail ?c) = ports ?c" "protocol (fail ?c) = protocol ?c"
    "transport (fail ?c) = transport ?c" "\<not> dead (fail ?c)"
    "attempts (trace (fail ?c)) = attempts (trace ?c) @ [(Some 80, transport ?c)]"
    by simp_all
  then show ?case
    using c by (simp add: replicate_append_same)
qed

subsection \<open>The flag \<open>dead\<close>\<close>

lemma connect_fields:
  "\<not> dead (connect s)" "\<not> connected (connect s)"
  "attempts (trace (connect s)) = attempts (trace s) @ [(port (connect s), transport s)]"
  "transport (connect s) = transport s"
  by (simp_all add: connect_def Let_def emit_def listenToEvents_def attempts_append)

lemma restart_not_dead: "\<not> dead (restart i s)"
  by (simp add: restart_def connect_fields)

lemma deliver_dead: "dead (deliver w s) = dead s"
  by (simp add: deliver_def emit_def split: option.splits)

lemma delayFn_dead: "dead (delayFn now s) = dead s"
  by (simp add: delayFn_def Let_def deliver_dead clearTimeout_def setTimeout_def
        split: list.splits option.splits)

lemma send_dead: "dead (send now m s) = dead s"
  by (simp add: send_def limitMessageInterval_def Let_def deliver_dead setTimeout_def
        split: option.splits)

lemma fire_dead: "dead (fire i now s) = dead s"
  by (simp add: fire_def delayFn_dead split: option.splits)

lemma teardown_fields:
  "port (teardown s) = port s" "transport (teardown s) = transport s"
  "connected (teardown s) = connected s" "socket (teardown s) = socket s"
  "attempts (trace (teardown s)) = attempts (trace s)"
  "terminal_errors (trace (teardown s)) = terminal_errors (trace s)"
  "socket s = Some i \<Longrightarrow> i \<notin> listeners (teardown s)"
  by (simp_all add: teardown_def disconnect_def emit_def attempts_append terminal_errors_append
        split: option.splits)

lemma reconnect_cases:
  "(\<exists>i s'. reconnect s = restart i s')
   \<or> reconnect s = emit (Trigger (ConnectError (- 3) (transport s))) ((teardown s)\<lparr>dead := True\<rparr>)"
  unfolding reconnect_def Let_def teardown_fields
  by (simp split: option.splits) blast

lemma reconnect_dead_eq:
  assumes "dead (reconnect s)"
  shows "reconnect s = emit (Trigger (ConnectError (- 3) (transport s))) ((teardown s)\<lparr>dead := True\<rparr>)"
  using assms reconnect_cases [of s] restart_not_dead by metis

lemma reconnect_dead:
  assumes "dead (reconnect s)"
  shows "attempts (trace (reconnect s)) = attempts (trace s)
    \<and> fail (reconnect s) = reconnect s
    \<and> terminal_errors (trace (reconnect s)) = Suc (terminal_errors (trace s))"
proof -
  have "fail (emit e ((teardown s)\<lparr>dead := True\<rparr>)) = emit e ((teardown s)\<lparr>dead := True\<rparr>)" for e
    using teardown_fields(7) [of s]
    by (cases "socket s") (simp_all add: fail_def socket_event_def emit_def teardown_fields)
  then show ?thesis
    unfolding reconnect_dead_eq [OF assms]
    by (simp add: emit_def attempts_append terminal_errors_append teardown_fields)
qed

lemma on_event_dead_change:
  assumes "dead (on_event ev s) \<noteq> dead s"
  shows "ev = reconnect_failed"
  using assms
  by (cases "(ev, s)" rule: on_event.cases) (auto simp add: emit_def Let_def split: if_splits)

lemma step_sets_dead:
  assumes "\<not> dead s" and "dead (step a s)"
  shows "(\<exists>i. a = Event i reconnect_failed) \<and> attempts (trace (step a s)) = attempts (trace s)
    \<and> fail (step a s) = step a s"
proof (cases a)
  case (Event i ev)
  with assms have l: "i \<in> listeners s" "dead (on_event ev s)"
    by (auto simp add: socket_event_def split: if_splits)
  with assms(1) have ev: "ev = reconnect_failed"
    using on_event_dead_change by blast
  with l have d: "dead (reconnect (emit (Trigger (ConnectError (- 1) (transport s))) s))"
    by simp
  from reconnect_dead [OF d] show ?thesis
    by (simp add: Event ev socket_event_def l emit_def attempts_append)
qed (use assms in \<open>auto simp add: send_dead fire_dead connect_fields disconnect_def emit_def
       reset_def Let_def split: option.splits if_splits\<close>)

lemma step_clears_dead:
  assumes "dead s" and "\<not> dead (step a s)"
  shows "a = Connect \<or> (\<exists>i. a = Event i reconnect_failed)"
proof (cases a)
  case (Event i ev)
  with assms have "dead (on_event ev s) \<noteq> dead s"
    by (auto simp add: socket_event_def split: if_splits)
  then show ?thesis using on_event_dead_change Event by blast
qed (use assms in \<open>auto simp add: send_dead fire_dead disconnect_def emit_def
       reset_def Let_def split: option.splits if_splits\<close>)

lemma deliver_ignores_dead: "deliver w (s\<lparr>dead := b\<rparr>) = (deliver w s)\<lparr>dead := b\<rparr>"
  by (simp add: deliver_def emit_def split: option.splits)

lemma deliver_not_connected:
  "\<not> connected s \<Longrightarrow> \<exists>r. trace (deliver w s) = trace s @ [LogDrop r w]"
  by (simp add: deliver_def emit_def split: option.splits)

text \<open>
  Claim C1 (amended). \<open>dead\<close> is not monotonic: \<open>connect()\<close> always clears \<open>dead\<close> and
  \<open>connected\<close> and always calls \<open>io.connect\<close>. A step sets \<open>dead\<close> only when it is a
  \<open>reconnect_failed\<close> event; that step calls no \<open>io.connect\<close> and leaves the current
  socket without handlers, so a further failure of it changes nothing. Once set, \<open>dead\<close>
  is cleared only by \<open>connect()\<close> or by a \<open>reconnect_failed\<close> event of a socket that still
  has its handlers. \<open>send\<close> does not read \<open>dead\<close>: what it hands over is dropped with a
  warning whenever \<open>connected\<close> is false.
\<close>

theorem connect_clears_dead:
  "\<not> dead (connect s) \<and> \<not> connected (connect s)
   \<and> attempts (trace (connect s)) = attempts (trace s) @ [(port (connect s), transport s)]
   \<and> (\<not> dead s \<and> dead (step a s) \<longrightarrow>
        (\<exists>i. a = Event i reconnect_failed)
        \<and> attempts (trace (step a s)) = attempts (trace s)
        \<and> fail (step a s) = step a s)
   \<and> (dead s \<and> \<not> dead (step a s) \<longrightarrow> a = Connect \<or> (\<exists>i. a = Event i reconnect_failed))
   \<and> deliver w (s\<lparr>dead := b\<rparr>) = (deliver w s)\<lparr>dead := b\<rparr>
   \<and> (\<not> connected s \<longrightarrow> (\<exists>r. trace (deliver w s) = trace s @ [LogDrop r w]))"
  using connect_fields(1,2,3) [of s] step_sets_dead [of s a] step_clears_dead [of s a]
    deliver_ignores_dead [of w b s] deliver_not_connected [of s w]
  by blast

lemma reconnect_dead_fields:
  assumes "dead (reconnect s)"
  shows "port (reconnect s) = port s \<and> transport (reconnect s) = transport s
    \<and> connected (reconnect s) = connected s \<and> socket (reconnect s) = socket s"
  unfolding reconnect_dead_eq [OF assms] by (simp add: emit_def teardown_fields)

lemma reconnect_not_connected: "\<not> connected s \<Longrightarrow> \<not> connected (reconnect s)"
  using reconnect_cases [of s]
  by (auto simp add: restart_def connect_fields emit_def teardown_fields)

lemma fail_not_connected: "\<not> connected c \<Longrightarrow> \<not> connected (fail c)"
  by (simp add: fail_def socket_event_def reconnect_not_connected emit_def
        split: option.splits)

lemma funpow_fail_not_connected: "\<not> connected ((fail ^^ n) (connect s))"
  by (induction n) (simp_all add: connect_fields fail_not_connected)

lemma given_up_fields:
  "dead given_up" "\<not> connected given_up" "port given_up = Some 3000"
  "transport given_up = Polling"
proof -
  let ?s = "new_socket default_ports Http True"
  let ?c = "(fail ^^ 5) (connect ?s)"
  have d: "distinct [6001, 80, 3000 :: nat]" "0 \<notin> set [6001, 80, 3000 :: nat]"
    "[6001, 80, 3000 :: nat] \<noteq> []"
    by simp_all
  have g: "given_up = fail ?c"
  proof -
    have "(6::nat) = Suc 5" by simp
    then show ?thesis by (simp only: given_up_def funpow.simps o_apply)
  qed
  have o: "(0::nat) = 0 \<and> transport ?s = WebSocket
      \<or> 0 = length [6001, 80, 3000 :: nat] \<and> transport ?s = Polling"
    by (simp add: default_http(3))
  have "ended [6001, 80, 3000] ?s 0 given_up"
    unfolding given_up_def
    by (rule ended_from [OF default_http(1) d default_http(2) o]) simp
  then show dd: "dead given_up" by (simp add: ended_def)
  show "\<not> connected given_up"
    unfolding given_up_def by (rule funpow_fail_not_connected)
  have r: "running [6001, 80, 3000] ?s 0 5 ?c"
    by (rule running_funpow [OF default_http(1) d default_http(2) o]) simp
  then obtain i where c: "socket ?c = Some i" "i \<in> listeners ?c"
    "port ?c = Some 3000" "transport ?c = Polling"
    by (auto simp add: running_def)
  have "fail ?c = reconnect (emit (Trigger (ConnectError (- 1) (transport ?c))) ?c)"
    using c(1,2) by (simp add: fail_def socket_event_def)
  with dd g reconnect_dead_fields [of "emit (Trigger (ConnectError (- 1) (transport ?c))) ?c"]
  have "port given_up = port ?c \<and> transport given_up = transport ?c"
    by (simp add: emit_def)
  with c show "port given_up = Some 3000" "transport given_up = Polling"
    by simp_all
qed

text \<open>
  Against claim C1 as stated: after the reconnection of the default object has been given
  up \<open>dead\<close> is set; \<open>connect()\<close> then clears it and calls \<open>io.connect\<close> once more.
\<close>

theorem dead_counterexample:
  "dead given_up \<and> \<not> dead (connect given_up)
   \<and> attempts (trace (connect given_up)) = attempts (trace given_up) @ [(Some 3000, Polling)]"
  using given_up_fields connect_fields(1,3) [of given_up]
  by (simp add: connect_def Let_def emit_def listenToEvents_def)

lemma polling_only_fields:
  "\<not> dead polling_only" "dead (step (Event 0 reconnect_failed) polling_only)"
  by (simp_all add: polling_only_def new_socket_def construct_def pristine_def reset_def connect_def Let_def emit_def
        listenToEvents_def ports_of_def socket_event_def reconnect_def teardown_def
        disconnect_def)

theorem connect_clears_dead_witness:
  "(\<not> dead (connect given_up) \<and> dead given_up
    \<and> (\<exists>r. trace (deliver (Plain (chat 1)) given_up) =
              trace given_up @ [LogDrop r (Plain (chat 1))]))
   \<and> (\<not> dead polling_only \<and> dead (step (Event 0 reconnect_failed) polling_only)
      \<and> attempts (trace (step (Event 0 reconnect_failed) polling_only)) =
          attempts (trace polling_only)
      \<and> fail (step (Event 0 reconnect_failed) polling_only) =
          step (Event 0 reconnect_failed) polling_only)"
proof -
  have 1: "\<not> dead (connect given_up) \<and> dead given_up
    \<and> (\<exists>r. trace (deliver (Plain (chat 1)) given_up) =
              trace given_up @ [LogDrop r (Plain (chat 1))])"
    using connect_clears_dead [of given_up Connect "Plain (chat 1)" True] given_up_fields
    by simp
  have 2: "\<not> dead polling_only \<and> dead (step (Event 0 reconnect_failed) polling_only)
      \<and> attempts (trace (step (Event 0 reconnect_failed) polling_only)) =
          attempts (trace polling_only)
      \<and> fail (step (Event 0 reconnect_failed) polling_only) =
          step (Event 0 reconnect_failed) polling_only"
    using connect_clears_dead [of polling_only "Event 0 reconnect_failed" "Plain (chat 1)" True]
      polling_only_fields
    by blast
  from 1 2 show ?thesis by blast
qed

section \<open>Properties of Peer\<close>

text \<open>
  Claim C5 (amended). When the primitive refuses to make an offer or an answer, or to
  apply a local or a remote description, the Peer calls the primitive once and the
  listener once, with the failure event and the error as payload; nothing else of the
  Peer changes: \<open>readyState\<close> keeps its value and nothing is tried again.
\<close>

theorem failure_reported_state_kept:
  assumes "RTCPeerConnection p = Some a"
  shows "createOffer env (Inl err) out p =
           Inr (p\<lparr>ptrace := ptrace p @
                 [PcCreateOffer a, Listener ''peer:local_offer:failure'' (ErrorPayload err)]\<rparr>)
    \<and> createAnswer env (Inl err) out p =
           Inr (p\<lparr>ptrace := ptrace p @
                 [PcCreateAnswer a, Listener ''peer:local_answer:failure'' (ErrorPayload err)]\<rparr>)
    \<and> setLocalDescription env (Some err) d p =
           Inr (p\<lparr>ptrace := ptrace p @
                 [PcSetLocalDescription a (d\<lparr>sdp := join_crlf (local_lines env p (sdp d))\<rparr>),
                  Listener ''peer:local_description:error'' (ErrorPayload err)]\<rparr>)
    \<and> setRemoteDescription (Some err) d p =
           Inr (p\<lparr>ptrace := ptrace p @
                 [PcSetRemoteDescription a d,
                  Listener ''peer:remote_description:error'' (ErrorPayload err)]\<rparr>)
    \<and> createOffer env (Inr d) (Some err) p =
           Inr (p\<lparr>ptrace := ptrace p @
                 [PcCreateOffer a, Listener ''peer:local_offer:success'' (DescPayload d),
                  PcSetLocalDescription a (d\<lparr>sdp := join_crlf (local_lines env p (sdp d))\<rparr>),
                  Listener ''peer:local_description:error'' (ErrorPayload err)]\<rparr>)"
  using assms
  by (simp add: createOffer_def createAnswer_def setLocalDescription_def
        setRemoteDescription_def Let_def listener_def primitive_def local_lines_def
        stream_stereo_def)

lemma example_peer_pc: "RTCPeerConnection example_peer = Some 0"
  "readyState example_peer = ''new''" "ptrace example_peer = []"
  by (simp_all add: example_peer_def bind_def)

theorem failure_reported_state_kept_witness:
  "map_sum id ptrace (createOffer example_env (Inl ''refused'') None example_peer) =
     Inr [PcCreateOffer 0, Listener ''peer:local_offer:failure'' (ErrorPayload ''refused'')]"
  using failure_reported_state_kept [OF example_peer_pc(1), of example_env "''refused''" None]
  by (simp add: example_peer_pc)

text \<open>
  Against claim C5 as stated: after a refused offer the state of the session is still
  \<open>new\<close>, not \<open>failed\<close>.
\<close>

theorem failure_state_counterexample:
  "map_sum id readyState (createOffer example_env (Inl ''refused'') None example_peer) =
     Inr ''new''
   \<and> map_sum id readyState (setRemoteDescription (Some ''refused'') example_offer example_peer) =
     Inr ''new''
   \<and> ''new'' \<noteq> ''failed''"
  by (simp add: createOffer_def setRemoteDescription_def Let_def listener_def primitive_def
        example_peer_pc)











lemma candidates_arrive_queue:
  assumes "bound (pcs p a)" and "\<not> immediate (pcs p a)"
  shows "candidates_arrive a es p =
           p\<lparr>pcs := (pcs p)(a := (pcs p a)
                 \<lparr>queueCandidate := queueCandidate (pcs p a) @ map received_of es\<rparr>)\<rparr>"
  using assms
proof (induction es arbitrary: p)
  case Nil
  then show ?case by simp
next
  case (Cons e es)
  let ?q = "pc_icecandidate a e p"
  have q: "?q = p\<lparr>pcs := (pcs p)(a := (pcs p a)
                 \<lparr>queueCandidate := queueCandidate (pcs p a) @ [received_of e]\<rparr>)\<rparr>"
    using Cons.prems
    by (simp add: pc_icecandidate_def onIceCandidate_def ICE_addCandidate_def Let_def)
  have bq: "bound (pcs ?q a)" "\<not> immediate (pcs ?q a)"
    using Cons.prems by (simp_all add: q)
  have "candidates_arrive a (e # es) p = candidates_arrive a es ?q"
    by simp
  also have "\<dots> = ?q\<lparr>pcs := (pcs ?q)(a := (pcs ?q a)
                 \<lparr>queueCandidate := queueCandidate (pcs ?q a) @ map received_of es\<rparr>)\<rparr>"
    by (rule Cons.IH [OF bq])
  also have "\<dots> = p\<lparr>pcs := (pcs p)(a := (pcs p a)
                 \<lparr>queueCandidate := queueCandidate (pcs p a) @ map received_of (e # es)\<rparr>)\<rparr>"
    unfolding q by simp
  finally show ?case .
qed

text \<open>
  Claim C7. The candidates that arrive on a bound connection before its remote
  description is applied are queued in the order of arrival and none is given to the
  primitive yet; when the remote description has been applied the drain gives them to
  the primitive, each once and in that order, and empties the queue; when the primitive
  refuses the description they all stay queued.
\<close>

theorem candidates_in_order:
  assumes "RTCPeerConnection p = Some a" and "\<not> immediate (pcs p a)"
  shows "queueCandidate (pcs (candidates_arrive a es (bind a p)) a) = map received_of es
    \<and> applied (pcs (candidates_arrive a es (bind a p)) a) = applied (pcs p a)
    \<and> (\<exists>p'. apply_remote None d (candidates_arrive a es (bind a p)) = Inr p'
          \<and> applied (pcs p' a) = applied (pcs p a) @ map received_of es
          \<and> queueCandidate (pcs p' a) = []
          \<and> immediate (pcs p' a))
    \<and> (\<exists>p'. apply_remote (Some err) d (candidates_arrive a es (bind a p)) = Inr p'
          \<and> applied (pcs p' a) = applied (pcs p a)
          \<and> queueCandidate (pcs p' a) = map received_of es)"
proof -
  let ?b = "bind a p"
  have b: "bound (pcs ?b a)" "\<not> immediate (pcs ?b a)"
    using assms(2) by (simp_all add: bind_def)
  have c: "candidates_arrive a es ?b =
      ?b\<lparr>pcs := (pcs ?b)(a := (pcs ?b a)
                 \<lparr>queueCandidate := queueCandidate (pcs ?b a) @ map received_of es\<rparr>)\<rparr>"
    by (rule candidates_arrive_queue [OF b])
  show ?thesis
    unfolding c using assms
    by (simp add: bind_def apply_remote_def setRemoteDescription_def Let_def listener_def
          primitive_def ICE_drain_def)
qed

theorem candidates_in_order_witness:
  "map_sum id (\<lambda>p. applied (pcs p 0))
     (apply_remote None example_offer
        (candidates_arrive 0 [Some ''c1'', Some ''c2'', None, Some ''c3''] (bind 0 example_peer))) =
   Inr [Candidate ''c1'', Candidate ''c2'', IceEvent, Candidate ''c3'']"
proof -
  have i: "\<not> immediate (pcs example_peer 0)" "applied (pcs example_peer 0) = []"
    by (simp_all add: example_peer_def bind_def unbound_pc_def)
  from candidates_in_order [OF example_peer_pc(1) i(1),
      of "[Some ''c1'', Some ''c2'', None, Some ''c3'']" example_offer]
  obtain p' where
    "apply_remote None example_offer
        (candidates_arrive 0 [Some ''c1'', Some ''c2'', None, Some ''c3''] (bind 0 example_peer)) = Inr p'"
    "applied (pcs p' 0) = applied (pcs example_peer 0) @
       map received_of [Some ''c1'', Some ''c2'', None, Some ''c3'']"
    by blast
  then show ?thesis by (simp add: i received_of_def)
qed

text \<open>
  Claim C8 (the code stores a created channel outside the mapping). A channel created
  with the identifier \<open>file1\<close> becomes the property \<open>file1\<close> of \<open>com.datachannels\<close> itself
  and the mapping \<open>transfers\<close> stays empty, while a received channel with that label is
  stored in \<open>transfers\<close>; created with the identifier \<open>transfers\<close> the channel replaces
  the mapping, and with \<open>main\<close> it takes the slot of the main channel.
\<close>

theorem created_channel_outside_transfers:
  "datachannels (createDataChannel fn_isEmpty (Some ''file1'') example_peer) ''file1'' =
     Some (DChan (Outbound (Some ''file1'')) [])
   \<and> datachannels (createDataChannel fn_isEmpty (Some ''file1'') example_peer) ''transfers'' =
     Some (DMap [])
   \<and> map_sum id (\<lambda>p. (datachannels p ''file1'', datachannels p ''transfers''))
       (onDataChannel ''file1'' example_peer) =
     Inr (None, Some (DMap [(''file1'', Inbound ''file1'')]))
   \<and> datachannels (createDataChannel fn_isEmpty (Some ''transfers'') example_peer) ''transfers'' =
     Some (DChan (Outbound (Some ''transfers'')) [])
   \<and> datachannels (createDataChannel fn_isEmpty (Some ''main'') example_peer) ''main'' =
     Some (DChan (Outbound (Some ''main'')) [])"
  by (simp add: createDataChannel_def fn_isEmpty_def example_peer_def bind_def onDataChannel_def
        set_transfer_def Let_def)

section \<open>Properties of the user data and the peer information\<close>

lemma self_info_trace: "self_info clone (s\<lparr>sk_trace := t\<rparr>) = self_info clone s"
  by (simp add: self_info_def)

lemma getPeerInfo_undefined: "getPeerInfo clone JUndefined s = self_info clone s"
  by (simp add: getPeerInfo_def)

text \<open>
  Claim C9. \<open>setUserData(d)\<close> always stores \<open>d\<close>, or the empty string when \<open>d\<close> is falsy,
  also when it throws afterwards. Out of the room it changes nothing else and does
  nothing else. Whatever it sends or triggers, it does so in the room only; there, with
  a user, a room and the information of self at hand, it sends one \<open>UPDATE_USER\<close>
  message with the stored data and then triggers \<open>peerUpdated\<close> once.
\<close>

theorem setUserData_stores_always:
  "sk_userData (fst (setUserData clone d s)) = (if truthy d then d else JStr [])
   \<and> (\<not> inRoom s \<longrightarrow>
        setUserData clone d s = (s\<lparr>sk_userData := (if truthy d then d else JStr [])\<rparr>, None))
   \<and> (sk_trace (fst (setUserData clone d s)) \<noteq> sk_trace s \<longrightarrow> inRoom s)
   \<and> fst (setUserData clone d s) =
        s\<lparr>sk_userData := (if truthy d then d else JStr []),
          sk_trace := sk_trace (fst (setUserData clone d s))\<rparr>
   \<and> (inRoom s \<and> sk_user s = Some u \<and> room_id s = Some r
        \<and> self_info clone (s\<lparr>sk_userData := (if truthy d then d else JStr [])\<rparr>) = Inr info
      \<longrightarrow> setUserData clone d s =
            (s\<lparr>sk_userData := (if truthy d then d else JStr []),
               sk_trace := sk_trace s @
                 [SendChannelMessage
                    (JObj [(''type'', UPDATE_USER s), (''mid'', JStr (sid u)),
                           (''rid'', JStr r),
                           (''userData'', (if truthy d then d else JStr []))]),
                  TriggerPeerUpdated (sid u) info True]\<rparr>, None))"
proof -
  let ?v = "if truthy d then d else JStr []"
  have p: "parseUserData d s = s\<lparr>sk_userData := ?v\<rparr>"
    by (simp add: parseUserData_def js_or_def)
  have 1: "sk_userData (fst (setUserData clone d s)) = ?v"
    by (simp add: setUserData_def p Let_def split: option.splits sum.splits)
  have 2: "\<not> inRoom s \<longrightarrow> setUserData clone d s = (s\<lparr>sk_userData := ?v\<rparr>, None)"
    by (simp add: setUserData_def p Let_def)
  have 3: "sk_trace (fst (setUserData clone d s)) \<noteq> sk_trace s \<longrightarrow> inRoom s"
    by (simp add: setUserData_def p Let_def)
  have 4: "fst (setUserData clone d s) =
        s\<lparr>sk_userData := ?v, sk_trace := sk_trace (fst (setUserData clone d s))\<rparr>"
    by (simp add: setUserData_def p Let_def split: option.splits sum.splits)
  have 5: "inRoom s \<and> sk_user s = Some u \<and> room_id s = Some r
        \<and> self_info clone (s\<lparr>sk_userData := ?v\<rparr>) = Inr info
      \<longrightarrow> setUserData clone d s =
            (s\<lparr>sk_userData := ?v,
               sk_trace := sk_trace s @
                 [SendChannelMessage
                    (JObj [(''type'', UPDATE_USER s), (''mid'', JStr (sid u)),
                           (''rid'', JStr r), (''userData'', ?v)]),
                  TriggerPeerUpdated (sid u) info True]\<rparr>, None)"
    by (simp add: setUserData_def p Let_def getPeerInfo_undefined self_info_trace)
  from 1 2 3 4 5 show ?thesis by blast
qed

lemma example_self_info:
  "self_info id (example_skylink\<lparr>sk_userData := JStr []\<rparr>) =
     Inr (JObj
       [(''userData'', JStr []),
        (''settings'', JObj [(''audio'', JBool True), (''video'', JBool False)]),
        (''mediaStatus'', JObj [(''audioMuted'', JBool False), (''videoMuted'', JBool True)]),
        (''agent'', JObj [(''name'', JStr ''chrome''), (''version'', JNum 45)]),
        (''room'', JStr ''room1'')])"
  by (simp add: self_info_def example_skylink_def js_or_def then_do_def obj_get_def
        object_prototype_functions_def Let_def)

theorem setUserData_stores_always_witness:
  "setUserData id (JNum 0) (example_skylink\<lparr>inRoom := False\<rparr>) =
     (example_skylink\<lparr>inRoom := False, sk_userData := JStr []\<rparr>, None)
   \<and> sk_trace (fst (setUserData id (JNum 0) example_skylink)) =
       [SendChannelMessage
          (JObj [(''type'', JStr ''updateUserEvent''), (''mid'', JStr ''me''),
                 (''rid'', JStr ''room1''), (''userData'', JStr [])]),
        TriggerPeerUpdated ''me''
          (JObj
            [(''userData'', JStr []),
             (''settings'', JObj [(''audio'', JBool True), (''video'', JBool False)]),
             (''mediaStatus'', JObj [(''audioMuted'', JBool False), (''videoMuted'', JBool True)]),
             (''agent'', JObj [(''name'', JStr ''chrome''), (''version'', JNum 45)]),
             (''room'', JStr ''room1'')]) True]"
proof -
  have a: "inRoom example_skylink" "sk_user example_skylink = Some \<lparr>uid = ''u0'', sid = ''me''\<rparr>"
    "room_id example_skylink = Some ''room1''" "sk_trace example_skylink = []"
    "UPDATE_USER example_skylink = JStr ''updateUserEvent''"
    by (simp_all add: example_skylink_def)
  from setUserData_stores_always [of id "JNum 0" "example_skylink\<lparr>inRoom := False\<rparr>"]
  have 1: "setUserData id (JNum 0) (example_skylink\<lparr>inRoom := False\<rparr>) =
     (example_skylink\<lparr>inRoom := False, sk_userData := JStr []\<rparr>, None)"
    by simp
  from setUserData_stores_always [of id "JNum 0" example_skylink "\<lparr>uid = ''u0'', sid = ''me''\<rparr>"
      "''room1''"] example_self_info a
  have 2: "sk_trace (fst (setUserData id (JNum 0) example_skylink)) =
       [SendChannelMessage
          (JObj [(''type'', JStr ''updateUserEvent''), (''mid'', JStr ''me''),
                 (''rid'', JStr ''room1''), (''userData'', JStr [])]),
        TriggerPeerUpdated ''me''
          (JObj
            [(''userData'', JStr []),
             (''settings'', JObj [(''audio'', JBool True), (''video'', JBool False)]),
             (''mediaStatus'', JObj [(''audioMuted'', JBool False), (''videoMuted'', JBool True)]),
             (''agent'', JObj [(''name'', JStr ''chrome''), (''version'', JNum 45)]),
             (''room'', JStr ''room1'')]) True]"
    by simp
  from 1 2 show ?thesis by blast
qed





end
